theory Spec2Isabelle
  imports Complex_Main "HOL-Library.Sublist" "HOL-Library.Word"
begin

section \<open>Platform, time and the backing store\<close>

text \<open>
  The services are TypeScript classes running on a JavaScript platform. What the platform
  supplies (HMAC, SHA-256, base64, JSON, the URL parser, the time zone) is not code of the
  repository; it is gathered in the record \<open>platform\<close> and every service function takes
  it as its first argument. A clock reading (\<open>Date.now()\<close>, \<open>new Date()\<close>) is an
  \<open>int\<close>: milliseconds since the epoch. Each place where the source reads the clock is an
  argument of its own, since two reads need not return the same value. An ISO-8601 string
  produced by \<open>toISOString()\<close> is represented by the instant it denotes: the rendering is
  injective and order preserving, so \<open>===\<close>, \<open>>\<close> and \<open><\<close> on such strings are
  \<open>=\<close>, \<open>>\<close> and \<open><\<close> on the instants.
\<close>

type_synonym time_ms = int

text \<open>
  A JavaScript string is a sequence of UTF-16 code units. The url and the text of a
  request, which come from the page, are kept as such: \<open>trim\<close>, \<open>toLowerCase\<close> and
  the class \<open>\s\<close> range over all of Unicode. Tokens, keys, digests and identifiers,
  which the code only splits, joins and compares, are strings of characters.
\<close>

type_synonym code_unit = "16 word"

type_synonym js_text = "code_unit list"

text \<open>The code units of a string of characters below U+0100.\<close>

definition utf16 :: "string \<Rightarrow> js_text" where
  "utf16 s = map of_char s"

record JWTPayload =
  jwt_userId :: string
  jwt_email :: string
  jwt_name :: string
  jwt_iat :: int
  jwt_exp :: int

text \<open>The object that \<open>parseAnalysisResult\<close> reads from the provider's embedded JSON.\<close>

record ParsedAnalysis =
  pa_classification :: string
  pa_confidenceLevel :: string
  pa_confidenceScore :: real
  pa_keyIndicators :: "string list option"
  pa_reasoning :: string

datatype provider = OpenAI | Anthropic

text \<open>The object \<open>result\<close> of a cache entry, as \<open>setCache\<close> builds it.\<close>

record CachedMetadata =
  cm_word_count :: nat
  cm_provider :: provider
  cm_analysis_time :: int

record CachedResult =
  cr_classification :: string
  cr_confidence_level :: string
  cr_confidence_score :: real
  cr_key_indicators :: "string list"
  cr_reasoning :: string
  cr_metadata :: CachedMetadata

record platform =
  hmac_sha256 :: "string \<Rightarrow> string \<Rightarrow> string"
    \<comment> \<open>\<open>crypto.subtle.sign('HMAC', key, message)\<close>: key, message, raw signature bytes\<close>
  sha256_hex :: "string \<Rightarrow> string"
    \<comment> \<open>\<open>createHash('sha256').update(s).digest('hex')\<close>\<close>
  sha256_hex_text :: "js_text \<Rightarrow> string"
    \<comment> \<open>the same digest of a text: \<open>update\<close> hashes its UTF-8 encoding\<close>
  toLowerCase :: "js_text \<Rightarrow> js_text"
    \<comment> \<open>\<open>String.prototype.toLowerCase\<close>: the lower-case mapping of Unicode\<close>
  btoa_utf8 :: "string \<Rightarrow> string"
    \<comment> \<open>\<open>btoa(unescape(encodeURIComponent(s)))\<close>\<close>
  atob_utf8 :: "string \<Rightarrow> string option"
    \<comment> \<open>\<open>decodeURIComponent(escape(atob(s)))\<close>; \<open>None\<close> when either step throws\<close>
  stringify_payload :: "JWTPayload \<Rightarrow> string"
    \<comment> \<open>\<open>JSON.stringify\<close> of a token payload\<close>
  parse_payload :: "string \<Rightarrow> JWTPayload option"
    \<comment> \<open>\<open>JSON.parse\<close> read as a token payload, with the fields the code's cast to
        \<open>JWTPayload\<close> takes for granted; \<open>None\<close> when it throws\<close>
  next_local_midnight :: "time_ms \<Rightarrow> time_ms"
    \<comment> \<open>\<open>d.setDate(d.getDate() + 1); d.setHours(0, 0, 0, 0); d.getTime()\<close>\<close>
  url_hostname :: "js_text \<Rightarrow> js_text option"
    \<comment> \<open>\<open>new URL(s).hostname\<close>; \<open>None\<close> when the constructor throws\<close>
  parse_analysis :: "string \<Rightarrow> ParsedAnalysis option"
    \<comment> \<open>\<open>JSON.parse\<close> of the provider's embedded object; \<open>None\<close> when it throws\<close>
  stringify_result :: "CachedResult \<Rightarrow> string"
    \<comment> \<open>\<open>JSON.stringify\<close> of the object \<open>result\<close> of a cache entry\<close>
  result_column :: "string \<Rightarrow> CachedResult option"
    \<comment> \<open>what the store hands back as \<open>data.result\<close> for a column \<open>result\<close> that was
        written with the given text, read as the object \<open>CacheEntry\<close> declares: the
        object when the store returns the column as a document; \<open>None\<close> when it returns
        the text as it was bound, on which \<open>result.metadata\<close> is \<open>undefined\<close> and
        reading \<open>word_count\<close> throws a \<open>TypeError\<close>\<close>

text \<open>
  The store is reached through \<open>env.DB.prepare(sql).bind(...).first()\<close> or \<open>.run()\<close>, and
  the code reads every answer as \<open>{ data, error }\<close>. A statement either succeeds, or
  answers with \<open>error\<close> set, or the call itself throws; a statement that did not succeed
  leaves the tables as they were. Which of the three happens is decided by the environment
  and is an argument of the model.
\<close>

datatype store_status = StoreOk | StoreError | StoreThrows

record User =
  usr_id :: string
  usr_google_id :: string
  usr_email :: string
  usr_name :: string
  usr_picture_url :: string
  usr_created_at :: time_ms
  usr_last_login_at :: time_ms

record TokenBlacklistEntry =
  bl_token_hash :: string
  bl_user_id :: string
  bl_expires_at :: time_ms

record UsageAnalytics =
  ua_user_id :: string
  ua_daily_count :: int
  ua_created_at :: int
    \<comment> \<open>the window key \<open>YYYY-MM-DD\<close>, represented by the number of the UTC day\<close>

record CacheEntry =
  ce_url_hash :: "string option"
  ce_content_hash :: "string option"
  ce_last_modified :: "string + time_ms"
  ce_full_url :: js_text
  ce_domain :: js_text
  ce_mode :: "string option"
  ce_result :: string
    \<comment> \<open>the text that \<open>setCache\<close> binds: \<open>JSON.stringify(cacheEntry.result)\<close>\<close>
  ce_created_at :: time_ms

record database =
  users :: "User list"
  token_blacklist :: "TokenBlacklistEntry list"
  usage_analytics :: "UsageAnalytics list"
  cache_entries :: "CacheEntry list"

definition empty_db :: database where
  "empty_db = \<lparr>users = [], token_blacklist = [], usage_analytics = [], cache_entries = []\<rparr>"

text \<open>
  Every \<open>throw new Error(...)\<close> of the modelled code is a constructor; the comment gives
  the message.
\<close>

datatype error =
    InvalidTokenFormat \<comment> \<open>Invalid token format\<close>
  | InvalidTokenSignature \<comment> \<open>Invalid token signature\<close>
  | MalformedPayload \<comment> \<open>the exception of \<open>atob\<close>, \<open>decodeURIComponent\<close> or \<open>JSON.parse\<close>\<close>
  | TokenExpired \<comment> \<open>Token expired\<close>
  | DatabaseError \<comment> \<open>Database error\<close>
  | TokenBlacklisted \<comment> \<open>Token is blacklisted\<close>
  | StoreException \<comment> \<open>whatever the store's driver threw\<close>
  | AuthenticationFailed \<comment> \<open>Authentication failed: Invalid token\<close>
  | FailedToBlacklistToken \<comment> \<open>Failed to blacklist token\<close>
  | AuthRequiredMissingHeader \<comment> \<open>Authentication required: Missing authorization header\<close>
  | AuthRequiredInvalidFormat \<comment> \<open>Authentication required: Invalid authorization format\<close>
  | AuthRequiredInvalidToken \<comment> \<open>Authentication required: Invalid token\<close>
  | InvalidGoogleIdToken \<comment> \<open>Invalid Google ID token\<close>
  | InvalidClientId \<comment> \<open>Invalid client ID\<close>
  | FailedToCreateUser \<comment> \<open>Failed to create user\<close>
  | GoogleAuthenticationFailed \<comment> \<open>Failed to authenticate with Google\<close>
  | RateLimitExceeded "int option"
      \<comment> \<open>Rate limit exceeded. Retry after N seconds; \<open>None\<close> prints as \<open>undefined\<close>\<close>
  | FetchException \<comment> \<open>whatever \<open>fetch\<close> threw (a network failure, a timeout)\<close>
  | ProviderApiError provider \<comment> \<open>OpenAI API error: N, Anthropic API error: N\<close>
  | InvalidProviderResponse provider
      \<comment> \<open>Invalid response from OpenAI, from Anthropic, or the exception of reading the body\<close>
  | FailedToParseAnalysis \<comment> \<open>Failed to parse AI analysis result\<close>
  | ContentAnalysisFailed \<comment> \<open>Content analysis failed. Please try again later.\<close>

section \<open>Strings\<close>

text \<open>\<open>s.split(c)\<close> for a one-character separator: never empty, \<open>''.split(c)\<close> is \<open>['']\<close>.\<close>

fun split_on :: "char \<Rightarrow> string \<Rightarrow> string list" where
  "split_on c [] = [[]]"
| "split_on c (x # xs) =
     (if x = c then [] # split_on c xs
      else (case split_on c xs of
              p # ps \<Rightarrow> (x # p) # ps
            | [] \<Rightarrow> [[x]]))"

text \<open>
  \<open>s.replace(pat, '')\<close> with a string pattern removes the leftmost occurrence of
  \<open>pat\<close> only.
\<close>

fun remove_first :: "string \<Rightarrow> string \<Rightarrow> string" where
  "remove_first pat [] = []"
| "remove_first pat (c # cs) =
     (if prefix pat (c # cs) then drop (length pat) (c # cs)
      else c # remove_first pat cs)"

section \<open>AuthService: tokens\<close>

definition jwt_header_json :: string where
  \<open>jwt_header_json = ''{"alg":"HS256","typ":"JWT"}''\<close>

definition TOKEN_LIFETIME :: int where
  "TOKEN_LIFETIME = 24 * 60 * 60"

definition base64Encode :: "platform \<Rightarrow> string \<Rightarrow> string" where
  "base64Encode P str = btoa_utf8 P str"

definition base64Decode :: "platform \<Rightarrow> string \<Rightarrow> string option" where
  "base64Decode P str = atob_utf8 P str"

definition createHMAC :: "platform \<Rightarrow> string \<Rightarrow> string \<Rightarrow> string" where
  "createHMAC P data secret = base64Encode P (hmac_sha256 P secret data)"

text \<open>
  \<open>jwt_payload_of\<close> is the object \<open>payload\<close> of \<open>generateJWT\<close>, which calls
  \<open>Date.now()\<close> once for \<open>iat\<close> and once more for \<open>exp\<close>: \<open>t_iat\<close> and
  \<open>t_exp\<close> are the two readings, in that order.
\<close>

definition jwt_payload_of :: "User \<Rightarrow> time_ms \<Rightarrow> time_ms \<Rightarrow> JWTPayload" where
  "jwt_payload_of user t_iat t_exp =
     \<lparr>jwt_userId = usr_id user,
      jwt_email = usr_email user,
      jwt_name = usr_name user,
      jwt_iat = t_iat div 1000,
      jwt_exp = t_exp div 1000 + 24 * 60 * 60\<rparr>"

definition generateJWT :: "platform \<Rightarrow> User \<Rightarrow> string \<Rightarrow> time_ms \<Rightarrow> time_ms \<Rightarrow> string" where
  "generateJWT P user secret t_iat t_exp =
     (let payload = jwt_payload_of user t_iat t_exp;
          encodedHeader = base64Encode P jwt_header_json;
          encodedPayload = base64Encode P (stringify_payload P payload);
          signature = createHMAC P (encodedHeader @ ''.'' @ encodedPayload) secret
      in encodedHeader @ ''.'' @ encodedPayload @ ''.'' @ signature)"

definition verifyJWT :: "platform \<Rightarrow> string \<Rightarrow> string \<Rightarrow> time_ms \<Rightarrow> error + JWTPayload" where
  "verifyJWT P token secret now =
     (case split_on CHR ''.'' token of
        [encodedHeader, encodedPayload, signature] \<Rightarrow>
          if signature \<noteq> createHMAC P (encodedHeader @ ''.'' @ encodedPayload) secret
          then Inl InvalidTokenSignature
          else (case base64Decode P encodedPayload of
                  None \<Rightarrow> Inl MalformedPayload
                | Some json \<Rightarrow>
                    (case parse_payload P json of
                       None \<Rightarrow> Inl MalformedPayload
                     | Some payload \<Rightarrow>
                         if jwt_exp payload < now div 1000 then Inl TokenExpired
                         else Inr payload))
      | _ \<Rightarrow> Inl InvalidTokenFormat)"

section \<open>AuthService: the blacklist\<close>

definition BLACKLIST_TTL :: int where
  "BLACKLIST_TTL = 24 * 60 * 60 * 1000"

text \<open>The values that \<open>addTokenToBlacklist\<close> binds to its \<open>INSERT\<close>.\<close>

definition blacklist_row :: "platform \<Rightarrow> string \<Rightarrow> string \<Rightarrow> time_ms \<Rightarrow> TokenBlacklistEntry" where
  "blacklist_row P token userId now =
     \<lparr>bl_token_hash = sha256_hex P token,
      bl_user_id = userId,
      bl_expires_at = now + 24 * 60 * 60 * 1000\<rparr>"

definition addTokenToBlacklist ::
  "platform \<Rightarrow> string \<Rightarrow> string \<Rightarrow> time_ms \<Rightarrow> store_status \<Rightarrow> database \<Rightarrow> error + database" where
  "addTokenToBlacklist P token userId now st db =
     (case st of
        StoreThrows \<Rightarrow> Inl StoreException
      | StoreError \<Rightarrow> Inl FailedToBlacklistToken
      | StoreOk \<Rightarrow>
          Inr (db\<lparr>token_blacklist := token_blacklist db @ [blacklist_row P token userId now]\<rparr>))"

definition cleanupExpiredTokens :: "time_ms \<Rightarrow> store_status \<Rightarrow> database \<Rightarrow> database" where
  "cleanupExpiredTokens now st db =
     (case st of
        StoreOk \<Rightarrow> db\<lparr>token_blacklist := filter (\<lambda>r. \<not> bl_expires_at r < now) (token_blacklist db)\<rparr>
      | _ \<Rightarrow> db)"

definition checkTokenBlacklist ::
  "platform \<Rightarrow> string \<Rightarrow> time_ms \<Rightarrow> store_status \<Rightarrow> database \<Rightarrow> error + unit" where
  "checkTokenBlacklist P token now st db =
     (case st of
        StoreThrows \<Rightarrow> Inl StoreException
      | StoreError \<Rightarrow> Inl DatabaseError
      | StoreOk \<Rightarrow>
          (case find (\<lambda>r. bl_token_hash r = sha256_hex P token \<and> bl_expires_at r > now)
                     (token_blacklist db) of
             Some _ \<Rightarrow> Inl TokenBlacklisted
           | None \<Rightarrow> Inr ()))"

text \<open>
  \<open>extractUserFromToken\<close> calls \<open>verifyJWT\<close> without \<open>await\<close>: \<open>payload\<close> is the
  pending promise. Only \<open>checkTokenBlacklist\<close> is awaited inside the \<open>try\<close>, so only its
  failure reaches the \<open>catch\<close>. \<open>return payload\<close> then settles the result with the
  promise's own outcome, which a rejection leaves as \<open>verifyJWT\<close> threw it.
  \<open>t_check\<close> is the clock reading of the blacklist query, \<open>t_verify\<close> the one of the
  expiry test.
\<close>

definition extractUserFromToken ::
  "platform \<Rightarrow> string \<Rightarrow> string \<Rightarrow> time_ms \<Rightarrow> time_ms \<Rightarrow> store_status \<Rightarrow> database
     \<Rightarrow> error + JWTPayload" where
  "extractUserFromToken P secret authorization t_check t_verify st db =
     (let token = remove_first ''Bearer '' authorization;
          payload = verifyJWT P token secret t_verify
      in case checkTokenBlacklist P token t_check st db of
           Inl _ \<Rightarrow> Inl AuthenticationFailed
         | Inr _ \<Rightarrow> payload)"

section \<open>AuthMiddleware\<close>

text \<open>
  \<open>request.headers.get('Authorization')\<close> is \<open>null\<close> (\<open>None\<close>) or a string;
  \<open>!authorization\<close> holds for \<open>null\<close> and for the empty string. Here the call of
  \<open>extractUserFromToken\<close> is awaited inside the \<open>try\<close>.
\<close>

definition requireAuth ::
  "platform \<Rightarrow> string \<Rightarrow> string option \<Rightarrow> time_ms \<Rightarrow> time_ms \<Rightarrow> store_status \<Rightarrow> database
     \<Rightarrow> error + JWTPayload" where
  "requireAuth P secret header t_check t_verify st db =
     (case header of
        None \<Rightarrow> Inl AuthRequiredMissingHeader
      | Some authorization \<Rightarrow>
          if authorization = [] then Inl AuthRequiredMissingHeader
          else if \<not> prefix ''Bearer '' authorization then Inl AuthRequiredInvalidFormat
          else (case extractUserFromToken P secret authorization t_check t_verify st db of
                  Inl _ \<Rightarrow> Inl AuthRequiredInvalidToken
                | Inr payload \<Rightarrow> Inr payload))"

section \<open>AuthService: sign-in\<close>

text \<open>
  The answer of \<open>fetch\<close> to the identity provider's token-info endpoint: the call
  throws, or answers with \<open>ok\<close> false, or with a body that is not JSON, or with the
  asserted fields. A field the body does not carry is \<open>None\<close> (\<open>undefined\<close>).
\<close>

record GoogleUser =
  g_aud :: "string option"
  g_sub :: "string option"
  g_email :: "string option"
  g_name :: "string option"
  g_picture :: "string option"

datatype google_reply =
    GoogleFetchThrows
  | GoogleNotOk
  | GoogleBodyNotJson
  | GoogleOk GoogleUser

text \<open>\<open>v || ''\<close> for a string or \<open>undefined\<close>.\<close>

definition or_empty :: "string option \<Rightarrow> string" where
  "or_empty v = (case v of None \<Rightarrow> [] | Some s \<Rightarrow> s)"

definition verifyGoogleToken :: "google_reply \<Rightarrow> string \<Rightarrow> error + GoogleUser" where
  "verifyGoogleToken reply clientId =
     (case reply of
        GoogleFetchThrows \<Rightarrow> Inl FetchException
      | GoogleNotOk \<Rightarrow> Inl InvalidGoogleIdToken
      | GoogleBodyNotJson \<Rightarrow> Inl MalformedPayload
      | GoogleOk data \<Rightarrow>
          if g_aud data \<noteq> Some clientId then Inl InvalidClientId else Inr data)"

text \<open>
  What one sign-in reads from its environment, in the order of the source: the identity
  provider's reply, the outcome of the \<open>SELECT\<close>, of the \<open>UPDATE\<close> and of the
  \<open>INSERT\<close>, the clock at the \<open>UPDATE\<close>, \<open>crypto.randomUUID()\<close>, the clock at
  \<open>created_at\<close> and at \<open>last_login_at\<close> of a new row, and the two clock readings of
  \<open>generateJWT\<close>.
\<close>

record signin_io =
  si_google :: google_reply
  si_find :: store_status
  si_update :: store_status
  si_insert :: store_status
  si_t_update :: time_ms
  si_uuid :: string
  si_t_created :: time_ms
  si_t_login :: time_ms
  si_t_iat :: time_ms
  si_t_exp :: time_ms

definition findOrCreateUser :: "GoogleUser \<Rightarrow> signin_io \<Rightarrow> database \<Rightarrow> error + (User \<times> database)" where
  "findOrCreateUser googleUser io db =
     (case si_find io of
        StoreThrows \<Rightarrow> Inl StoreException
      | StoreError \<Rightarrow> Inl DatabaseError
      | StoreOk \<Rightarrow>
          (case find (\<lambda>u. usr_google_id u = or_empty (g_sub googleUser)) (users db) of
             Some existingUser \<Rightarrow>
               (case si_update io of
                  StoreThrows \<Rightarrow> Inl StoreException
                | StoreError \<Rightarrow> Inr (existingUser, db)
                | StoreOk \<Rightarrow>
                    Inr (existingUser,
                         db\<lparr>users :=
                              map (\<lambda>u. if usr_id u = usr_id existingUser
                                        then u\<lparr>usr_last_login_at := si_t_update io\<rparr>
                                        else u)
                                  (users db)\<rparr>))
           | None \<Rightarrow>
               (let newUser =
                      \<lparr>usr_id = si_uuid io,
                       usr_google_id = or_empty (g_sub googleUser),
                       usr_email = or_empty (g_email googleUser),
                       usr_name = or_empty (g_name googleUser),
                       usr_picture_url = or_empty (g_picture googleUser),
                       usr_created_at = si_t_created io,
                       usr_last_login_at = si_t_login io\<rparr>
                in case si_insert io of
                     StoreThrows \<Rightarrow> Inl StoreException
                   | StoreError \<Rightarrow> Inl FailedToCreateUser
                   | StoreOk \<Rightarrow> Inr (newUser, db\<lparr>users := users db @ [newUser]\<rparr>))))"

record AuthResponse =
  ar_token :: string
  ar_user :: User
  ar_isNewUser :: bool

text \<open>
  Every step is awaited inside one \<open>try\<close>, and the \<open>catch\<close> replaces whatever was
  thrown. \<open>requestData.idToken\<close> only selects the identity provider's reply, which is
  part of \<open>io\<close>.
\<close>

definition authenticateWithGoogle ::
  "platform \<Rightarrow> string \<Rightarrow> string \<Rightarrow> signin_io \<Rightarrow> database \<Rightarrow> error + (AuthResponse \<times> database)" where
  "authenticateWithGoogle P clientId secret io db =
     (case verifyGoogleToken (si_google io) clientId of
        Inl _ \<Rightarrow> Inl GoogleAuthenticationFailed
      | Inr googleUser \<Rightarrow>
          (case findOrCreateUser googleUser io db of
             Inl _ \<Rightarrow> Inl GoogleAuthenticationFailed
           | Inr (user, db') \<Rightarrow>
               Inr (\<lparr>ar_token = generateJWT P user secret (si_t_iat io) (si_t_exp io),
                     ar_user = user,
                     ar_isNewUser = (usr_created_at user = usr_last_login_at user)\<rparr>,
                    db')))"

section \<open>Sequences of blacklist statements\<close>

text \<open>
  What may happen to the blacklist between a logout and a later request: further
  logouts and runs of the cleanup, each with its own clock reading and store outcome.
\<close>

datatype blacklist_op =
    Revoke string string time_ms store_status
  | Cleanup time_ms store_status

fun op_time :: "blacklist_op \<Rightarrow> time_ms" where
  "op_time (Revoke token userId now st) = now"
| "op_time (Cleanup now st) = now"

fun apply_blacklist_op :: "platform \<Rightarrow> database \<Rightarrow> blacklist_op \<Rightarrow> database" where
  "apply_blacklist_op P db (Revoke token userId now st) =
     (case addTokenToBlacklist P token userId now st db of Inl _ \<Rightarrow> db | Inr db' \<Rightarrow> db')"
| "apply_blacklist_op P db (Cleanup now st) = cleanupExpiredTokens now st db"

definition run_blacklist_ops :: "platform \<Rightarrow> blacklist_op list \<Rightarrow> database \<Rightarrow> database" where
  "run_blacklist_ops P ops db = foldl (apply_blacklist_op P) db ops"

section \<open>RateLimitService\<close>

definition DAILY_LIMIT :: int where
  "DAILY_LIMIT = 50"

record RateLimitResult =
  rl_allowed :: bool
  rl_retryAfter :: "int option"
  rl_message :: "string option"
  rl_currentCount :: "int option"

text \<open>
  \<open>new Date().toISOString().split('T')[0]\<close> is the UTC calendar date of the clock
  reading; the date string and the number of the UTC day determine each other.
\<close>

definition utc_day :: "time_ms \<Rightarrow> int" where
  "utc_day now = now div (24 * 60 * 60 * 1000)"

text \<open>\<open>Math.ceil(x / 1000)\<close> for an integer \<open>x\<close>.\<close>

definition ceil_div_1000 :: "int \<Rightarrow> int" where
  "ceil_div_1000 x = - ((- x) div 1000)"

text \<open>
  What one \<open>checkRateLimit\<close> reads from its environment, in the order of the source: the
  clock for today's key, the outcome of the \<open>SELECT\<close>, the clock for \<open>tomorrow\<close> and
  \<open>Date.now()\<close> of the retry delay, the outcome of the \<open>UPDATE\<close> and of the
  \<open>INSERT\<close>.
\<close>

record ratelimit_io =
  rl_t_today :: time_ms
  rl_select :: store_status
  rl_t_tomorrow :: time_ms
  rl_t_now :: time_ms
  rl_update :: store_status
  rl_insert :: store_status

text \<open>
  The \<open>UPDATE\<close> changes every row of the user and date; when no row matches it changes
  nothing and succeeds. The \<open>INSERT\<close> is reached only when the \<open>UPDATE\<close> answered with
  an error. Whatever is thrown is caught inside.
\<close>

definition incrementUsage :: "string \<Rightarrow> int \<Rightarrow> ratelimit_io \<Rightarrow> database \<Rightarrow> database" where
  "incrementUsage userId date io db =
     (case rl_update io of
        StoreThrows \<Rightarrow> db
      | StoreOk \<Rightarrow>
          db\<lparr>usage_analytics :=
               map (\<lambda>r. if ua_user_id r = userId \<and> ua_created_at r = date
                         then r\<lparr>ua_daily_count := ua_daily_count r + 1\<rparr>
                         else r)
                   (usage_analytics db)\<rparr>
      | StoreError \<Rightarrow>
          (case rl_insert io of
             StoreOk \<Rightarrow>
               db\<lparr>usage_analytics :=
                    usage_analytics db
                      @ [\<lparr>ua_user_id = userId, ua_daily_count = 1, ua_created_at = date\<rparr>]\<rparr>
           | _ \<Rightarrow> db))"

definition incrementUsageForUser :: "string \<Rightarrow> int \<Rightarrow> ratelimit_io \<Rightarrow> database \<Rightarrow> database" where
  "incrementUsageForUser userId date io db = incrementUsage userId date io db"

definition allowed_only :: RateLimitResult where
  "allowed_only =
     \<lparr>rl_allowed = True, rl_retryAfter = None, rl_message = None, rl_currentCount = None\<rparr>"

definition checkRateLimit ::
  "platform \<Rightarrow> string \<Rightarrow> ratelimit_io \<Rightarrow> database \<Rightarrow> RateLimitResult \<times> database" where
  "checkRateLimit P userId io db =
     (if userId = []
      then (\<lparr>rl_allowed = False, rl_retryAfter = None,
             rl_message = Some ''User ID is required'', rl_currentCount = None\<rparr>, db)
      else
        (case rl_select io of
           StoreThrows \<Rightarrow> (allowed_only, db)
         | StoreError \<Rightarrow> (allowed_only, db)
         | StoreOk \<Rightarrow>
             (let today = utc_day (rl_t_today io);
                  currentCount =
                    (case find (\<lambda>r. ua_user_id r = userId \<and> ua_created_at r = today)
                               (usage_analytics db) of
                       None \<Rightarrow> 0
                     | Some usage \<Rightarrow> ua_daily_count usage)
              in if currentCount \<ge> DAILY_LIMIT
                 then (\<lparr>rl_allowed = False,
                        rl_retryAfter =
                          Some (ceil_div_1000
                                  (next_local_midnight P (rl_t_tomorrow io) - rl_t_now io)),
                        rl_message = Some ''Daily limit exceeded'',
                        rl_currentCount = Some currentCount\<rparr>, db)
                 else (\<lparr>rl_allowed = True, rl_retryAfter = None, rl_message = None,
                        rl_currentCount = Some (currentCount + 1)\<rparr>,
                       incrementUsageForUser userId today io db))))"

text \<open>A day of requests: one \<open>checkRateLimit\<close> after the other on the same store.\<close>

fun checkRateLimit_seq ::
  "platform \<Rightarrow> string \<Rightarrow> ratelimit_io list \<Rightarrow> database \<Rightarrow> RateLimitResult list \<times> database" where
  "checkRateLimit_seq P userId [] db = ([], db)"
| "checkRateLimit_seq P userId (io # ios) db =
     (case checkRateLimit P userId io db of
        (r, db') \<Rightarrow>
          (case checkRateLimit_seq P userId ios db' of
             (rs, db'') \<Rightarrow> (r # rs, db'')))"

section \<open>CacheService\<close>

datatype mode = Quick | Deep

fun mode_tag :: "mode \<Rightarrow> string" where
  "mode_tag Quick = ''quick''"
| "mode_tag Deep = ''deep''"

record AnalysisRequest =
  rq_url :: js_text
  rq_text :: js_text
  rq_userId :: string
  rq_mode :: mode
  rq_lastModified :: "string option"

text \<open>
  \<open>trim\<close> strips the white space and the line terminators of ECMAScript from both
  ends: tab, line feed, vertical tab, form feed, carriage return, space, no-break space,
  U+1680, U+2000 to U+200A, U+2028, U+2029, U+202F, U+205F, U+3000 and U+FEFF. Each is one
  code unit. The class \<open>\s\<close> of a regular expression is the same set.
\<close>

definition is_space :: "code_unit \<Rightarrow> bool" where
  "is_space c =
     (c \<in> set [0x0009, 0x000A, 0x000B, 0x000C, 0x000D, 0x0020, 0x00A0, 0x1680,
                0x2028, 0x2029, 0x202F, 0x205F, 0x3000, 0xFEFF]
      \<or> (0x2000 \<le> c \<and> c \<le> 0x200A))"

definition trim :: "js_text \<Rightarrow> js_text" where
  "trim s = rev (dropWhile is_space (rev (dropWhile is_space s)))"

definition generateCacheKey :: "platform \<Rightarrow> AnalysisRequest \<Rightarrow> string" where
  "generateCacheKey P requestData =
     (let contentHash = take 16 (sha256_hex_text P (toLowerCase P (trim (rq_text requestData))));
          urlHash = take 16 (sha256_hex_text P (toLowerCase P (rq_url requestData)))
      in urlHash @ ''_'' @ contentHash @ ''_'' @ mode_tag (rq_mode requestData))"

record ResultMetadata =
  md_wordCount :: nat
  md_provider :: provider
  md_analysisTime :: int
  md_cacheCreatedAt :: "time_ms option"

record AnalysisResult =
  res_classification :: string
  res_confidenceLevel :: string
  res_confidenceScore :: real
  res_keyIndicators :: "string list"
  res_reasoning :: string
  res_metadata :: ResultMetadata

text \<open>\<open>xs[i]\<close> of JavaScript: \<open>undefined\<close> out of range.\<close>

definition nth_opt :: "'a list \<Rightarrow> nat \<Rightarrow> 'a option" where
  "nth_opt xs i = (if i < length xs then Some (xs ! i) else None)"

text \<open>
  The \<open>WHERE\<close> clause of the cache statements, with the three parts of the key bound to
  it. A column holds what was bound on insertion; a missing part (\<open>undefined\<close>) equals
  nothing.
\<close>

definition cache_row_matches :: "string \<Rightarrow> CacheEntry \<Rightarrow> bool" where
  "cache_row_matches cacheKey e =
     (let parts = split_on CHR ''_'' cacheKey
      in ce_url_hash e \<noteq> None \<and> ce_url_hash e = nth_opt parts 0
         \<and> ce_content_hash e \<noteq> None \<and> ce_content_hash e = nth_opt parts 1
         \<and> ce_mode e \<noteq> None \<and> ce_mode e = nth_opt parts 2)"

definition deleteCache :: "string \<Rightarrow> store_status \<Rightarrow> database \<Rightarrow> database" where
  "deleteCache cacheKey st db =
     (case st of
        StoreOk \<Rightarrow>
          db\<lparr>cache_entries := filter (\<lambda>e. \<not> cache_row_matches cacheKey e) (cache_entries db)\<rparr>
      | _ \<Rightarrow> db)"

text \<open>
  \<open>convertCacheEntryToResult\<close> reads \<open>cacheEntry.result\<close> as an object, without
  \<open>JSON.parse\<close>, although the column was written with \<open>JSON.stringify\<close>. What it
  finds there is what the store hands back for the column (\<open>result_column\<close>);
  \<open>None\<close> is the \<open>TypeError\<close> of reading \<open>result.metadata.word_count\<close> on a text.
\<close>

definition convertCacheEntryToResult :: "platform \<Rightarrow> CacheEntry \<Rightarrow> AnalysisResult option" where
  "convertCacheEntryToResult P cacheEntry =
     (case result_column P (ce_result cacheEntry) of
        None \<Rightarrow> None
      | Some result \<Rightarrow>
          Some \<lparr>res_classification = cr_classification result,
                res_confidenceLevel = cr_confidence_level result,
                res_confidenceScore = cr_confidence_score result,
                res_keyIndicators = cr_key_indicators result,
                res_reasoning = cr_reasoning result,
                res_metadata =
                  \<lparr>md_wordCount = cm_word_count (cr_metadata result),
                   md_provider = cm_provider (cr_metadata result),
                   md_analysisTime = cm_analysis_time (cr_metadata result),
                   md_cacheCreatedAt = Some (ce_created_at cacheEntry)\<rparr>\<rparr>)"

text \<open>
  \<open>getCache\<close>: \<open>st\<close> is the outcome of the \<open>SELECT\<close>, \<open>now\<close> the reading of
  \<open>Date.now()\<close>, \<open>st_delete\<close> the outcome of the \<open>DELETE\<close> of an expired entry.
  The whole body is in a \<open>try\<close> whose \<open>catch\<close> returns \<open>null\<close>: so does an
  exception of the store, and so does the \<open>TypeError\<close> of the conversion.
\<close>

definition getCache ::
  "platform \<Rightarrow> string \<Rightarrow> store_status \<Rightarrow> time_ms \<Rightarrow> store_status \<Rightarrow> database
     \<Rightarrow> AnalysisResult option \<times> database" where
  "getCache P cacheKey st now st_delete db =
     (case st of
        StoreThrows \<Rightarrow> (None, db)
      | StoreError \<Rightarrow> (None, db)
      | StoreOk \<Rightarrow>
          (case find (cache_row_matches cacheKey) (cache_entries db) of
             None \<Rightarrow> (None, db)
           | Some data \<Rightarrow>
               if now - ce_created_at data > 24 * 60 * 60 * 1000
               then (None, deleteCache cacheKey st_delete db)
               else (case convertCacheEntryToResult P data of
                       None \<Rightarrow> (None, db)
                     | Some result \<Rightarrow> (Some result, db))))"

text \<open>The object \<open>result\<close> that \<open>setCache\<close> builds from the analysis result.\<close>

definition cached_result_of :: "AnalysisResult \<Rightarrow> CachedResult" where
  "cached_result_of result =
     \<lparr>cr_classification = res_classification result,
      cr_confidence_level = res_confidenceLevel result,
      cr_confidence_score = res_confidenceScore result,
      cr_key_indicators = res_keyIndicators result,
      cr_reasoning = res_reasoning result,
      cr_metadata =
        \<lparr>cm_word_count = md_wordCount (res_metadata result),
         cm_provider = md_provider (res_metadata result),
         cm_analysis_time = md_analysisTime (res_metadata result)\<rparr>\<rparr>"

text \<open>
  \<open>setCache\<close>: \<open>t_modified\<close> and \<open>t_created\<close> are the two clock readings, \<open>st\<close>
  the outcome of the \<open>INSERT\<close>. An exception of \<open>new URL\<close> is caught and nothing is
  written. The column \<open>result\<close> is bound to \<open>JSON.stringify(cacheEntry.result)\<close>.
\<close>

definition setCache ::
  "platform \<Rightarrow> string \<Rightarrow> AnalysisResult \<Rightarrow> AnalysisRequest \<Rightarrow> time_ms \<Rightarrow> time_ms \<Rightarrow> store_status
     \<Rightarrow> database \<Rightarrow> database" where
  "setCache P cacheKey result requestData t_modified t_created st db =
     (let parts = split_on CHR ''_'' cacheKey
      in case url_hostname P (rq_url requestData) of
           None \<Rightarrow> db
         | Some domain \<Rightarrow>
             (let cacheEntry =
                    \<lparr>ce_url_hash = nth_opt parts 0,
                     ce_content_hash = nth_opt parts 1,
                     ce_last_modified =
                       (case rq_lastModified requestData of
                          None \<Rightarrow> Inr t_modified
                        | Some m \<Rightarrow> if m = [] then Inr t_modified else Inl m),
                     ce_full_url = rq_url requestData,
                     ce_domain = domain,
                     ce_mode = nth_opt parts 2,
                     ce_result = stringify_result P (cached_result_of result),
                     ce_created_at = t_created\<rparr>
              in case st of
                   StoreOk \<Rightarrow> db\<lparr>cache_entries := cache_entries db @ [cacheEntry]\<rparr>
                 | _ \<Rightarrow> db))"

section \<open>AnalysisService\<close>

text \<open>
  The answer of \<open>fetch\<close> to a provider: the call throws (a network failure, a timeout),
  or there is a response with its \<open>ok\<close> flag and a body. The body is not JSON, or it
  is JSON in which the path to the text (\<open>choices[0]?.message?.content\<close>,
  \<open>content[0]?.text\<close>) throws or yields nothing, or it carries the text.
\<close>

datatype provider_body = BodyNotJson | BodyWithoutText | BodyText string

datatype provider_reply = FetchThrows | HttpReply bool provider_body

text \<open>The trace of one request: what was consulted, in order.\<close>

datatype event = RateLimitCheck | CacheLookup | ProviderCall provider | CacheWrite

text \<open>
  \<open>text.trim().split(/\s+/).length\<close>: the number of runs of code units that are not
  white space, and one for the empty string.
\<close>

fun count_runs :: "bool \<Rightarrow> js_text \<Rightarrow> nat" where
  "count_runs in_word [] = 0"
| "count_runs in_word (c # cs) =
     (if is_space c then count_runs False cs
      else (if in_word then 0 else 1) + count_runs True cs)"

definition wordCount :: "js_text \<Rightarrow> nat" where
  "wordCount text = (if trim text = [] then 1 else count_runs False (trim text))"

text \<open>
  \<open>analysis.match(/\{[\s\S]*\}/)\<close>: from the first opening brace to the last closing
  brace after it.
\<close>

definition match_json :: "string \<Rightarrow> string option" where
  "match_json s =
     (case dropWhile (\<lambda>c. c \<noteq> CHR ''{'') s of
        [] \<Rightarrow> None
      | b # rest \<Rightarrow>
          (case rev (dropWhile (\<lambda>c. c \<noteq> CHR ''}'') (rev rest)) of
             [] \<Rightarrow> None
           | body \<Rightarrow> Some (b # body)))"

definition parseAnalysisResult :: "platform \<Rightarrow> string \<Rightarrow> provider \<Rightarrow> nat \<Rightarrow> error + AnalysisResult" where
  "parseAnalysisResult P analysis prov wc =
     (case match_json analysis of
        None \<Rightarrow> Inl FailedToParseAnalysis
      | Some json \<Rightarrow>
          (case parse_analysis P json of
             None \<Rightarrow> Inl FailedToParseAnalysis
           | Some parsed \<Rightarrow>
               Inr \<lparr>res_classification = pa_classification parsed,
                    res_confidenceLevel = pa_confidenceLevel parsed,
                    res_confidenceScore = pa_confidenceScore parsed,
                    res_keyIndicators =
                      (case pa_keyIndicators parsed of None \<Rightarrow> [] | Some k \<Rightarrow> k),
                    res_reasoning = pa_reasoning parsed,
                    res_metadata =
                      \<lparr>md_wordCount = wc, md_provider = prov, md_analysisTime = 0,
                       md_cacheCreatedAt = None\<rparr>\<rparr>))"

text \<open>A provider call is made once per invocation; the prompt only goes out.\<close>

definition analyzeWithOpenAI ::
  "platform \<Rightarrow> AnalysisRequest \<Rightarrow> provider_reply \<Rightarrow> (error + AnalysisResult) \<times> event list" where
  "analyzeWithOpenAI P requestData reply =
     (let wc = wordCount (rq_text requestData)
      in (case reply of
            FetchThrows \<Rightarrow> Inl FetchException
          | HttpReply ok body \<Rightarrow>
              if \<not> ok then Inl (ProviderApiError OpenAI)
              else (case body of
                      BodyNotJson \<Rightarrow> Inl (InvalidProviderResponse OpenAI)
                    | BodyWithoutText \<Rightarrow> Inl (InvalidProviderResponse OpenAI)
                    | BodyText analysis \<Rightarrow>
                        if analysis = [] then Inl (InvalidProviderResponse OpenAI)
                        else parseAnalysisResult P analysis OpenAI wc),
          [ProviderCall OpenAI]))"

definition analyzeWithAnthropic ::
  "platform \<Rightarrow> AnalysisRequest \<Rightarrow> provider_reply \<Rightarrow> (error + AnalysisResult) \<times> event list" where
  "analyzeWithAnthropic P requestData reply =
     (let wc = wordCount (rq_text requestData)
      in (case reply of
            FetchThrows \<Rightarrow> Inl FetchException
          | HttpReply ok body \<Rightarrow>
              if \<not> ok then Inl (ProviderApiError Anthropic)
              else (case body of
                      BodyNotJson \<Rightarrow> Inl (InvalidProviderResponse Anthropic)
                    | BodyWithoutText \<Rightarrow> Inl (InvalidProviderResponse Anthropic)
                    | BodyText analysis \<Rightarrow>
                        if analysis = [] then Inl (InvalidProviderResponse Anthropic)
                        else parseAnalysisResult P analysis Anthropic wc),
          [ProviderCall Anthropic]))"

text \<open>
  What one \<open>analyzeContent\<close> reads from its environment, in the order of the source.
\<close>

record analysis_io =
  io_rate :: ratelimit_io
  io_cache_select :: store_status
  io_cache_now :: time_ms
  io_cache_delete :: store_status
  io_t_start :: time_ms
  io_openai :: provider_reply
  io_anthropic :: provider_reply
  io_t_end :: time_ms
  io_t_modified :: time_ms
  io_t_created :: time_ms
  io_cache_insert :: store_status

definition with_analysisTime :: "AnalysisResult \<Rightarrow> int \<Rightarrow> AnalysisResult" where
  "with_analysisTime result analysisTime =
     result\<lparr>res_metadata := (res_metadata result)\<lparr>md_analysisTime := analysisTime\<rparr>\<rparr>"

definition performAnalysis ::
  "platform \<Rightarrow> AnalysisRequest \<Rightarrow> analysis_io \<Rightarrow> (error + AnalysisResult) \<times> event list" where
  "performAnalysis P requestData io =
     (case analyzeWithOpenAI P requestData (io_openai io) of
        (Inr result, ev1) \<Rightarrow>
          (Inr (with_analysisTime result (io_t_end io - io_t_start io)), ev1)
      | (Inl openAIError, ev1) \<Rightarrow>
          (case analyzeWithAnthropic P requestData (io_anthropic io) of
             (Inr result, ev2) \<Rightarrow>
               (Inr (with_analysisTime result (io_t_end io - io_t_start io)), ev1 @ ev2)
           | (Inl _, ev2) \<Rightarrow> (Inl ContentAnalysisFailed, ev1 @ ev2)))"

datatype cache_status = Hit | Miss

record ApiResponse =
  api_result :: AnalysisResult
  api_cacheStatus :: cache_status

definition analyzeContent ::
  "platform \<Rightarrow> AnalysisRequest \<Rightarrow> analysis_io \<Rightarrow> string \<Rightarrow> database
     \<Rightarrow> (error + ApiResponse) \<times> database \<times> event list" where
  "analyzeContent P requestData io userId db =
     (case checkRateLimit P userId (io_rate io) db of
        (rateLimitResult, db1) \<Rightarrow>
          if \<not> rl_allowed rateLimitResult
          then (Inl (RateLimitExceeded (rl_retryAfter rateLimitResult)), db1, [RateLimitCheck])
          else
            (let cacheKey = generateCacheKey P requestData
             in case getCache P cacheKey (io_cache_select io) (io_cache_now io)
                       (io_cache_delete io) db1 of
                  (Some cachedResult, db2) \<Rightarrow>
                    (Inr \<lparr>api_result = cachedResult, api_cacheStatus = Hit\<rparr>, db2,
                     [RateLimitCheck, CacheLookup])
                | (None, db2) \<Rightarrow>
                    (case performAnalysis P requestData io of
                       (Inl e, ev) \<Rightarrow> (Inl e, db2, [RateLimitCheck, CacheLookup] @ ev)
                     | (Inr analysisResult, ev) \<Rightarrow>
                         (Inr \<lparr>api_result = analysisResult, api_cacheStatus = Miss\<rparr>,
                          setCache P cacheKey analysisResult requestData
                            (io_t_modified io) (io_t_created io) (io_cache_insert io) db2,
                          [RateLimitCheck, CacheLookup] @ ev @ [CacheWrite]))))"

section \<open>A concrete platform\<close>

text \<open>
  A small platform on which the services can be run: an escape code in the place of
  base64, a checksum in the place of SHA-256, a field list in the place of JSON. It is
  used only to run the model on concrete inputs.
\<close>

definition hex_digit :: "nat \<Rightarrow> char" where
  "hex_digit n = ''0123456789abcdef'' ! (n mod 16)"

text \<open>In the place of base64: the dot and the percent sign are escaped.\<close>

fun demo_btoa :: "string \<Rightarrow> string" where
  "demo_btoa [] = []"
| "demo_btoa (c # cs) =
     (if c = CHR ''.'' then ''%d'' @ demo_btoa cs
      else if c = CHR ''%'' then ''%p'' @ demo_btoa cs
      else c # demo_btoa cs)"

fun demo_atob :: "string \<Rightarrow> string option" where
  "demo_atob [] = Some []"
| "demo_atob [c] = (if c = CHR ''%'' \<or> c = CHR ''.'' then None else Some [c])"
| "demo_atob (c # e # cs) =
     (if c = CHR ''%''
      then (if e = CHR ''d'' then map_option ((#) CHR ''.'') (demo_atob cs)
            else if e = CHR ''p'' then map_option ((#) CHR ''%'') (demo_atob cs)
            else None)
      else if c = CHR ''.'' then None
      else map_option ((#) c) (demo_atob (e # cs)))"

definition checksum :: "string \<Rightarrow> nat" where
  "checksum s = foldl (\<lambda>acc c. (31 * acc + of_char c) mod 65536) 7 s"

definition hex4 :: "nat \<Rightarrow> string" where
  "hex4 n = [hex_digit (n div 4096), hex_digit (n div 256), hex_digit (n div 16), hex_digit n]"

definition demo_sha256_hex :: "string \<Rightarrow> string" where
  "demo_sha256_hex s =
     hex4 (checksum s) @ hex4 (checksum (rev s)) @ hex4 (length s) @ ''0000''"

definition checksum_text :: "js_text \<Rightarrow> nat" where
  "checksum_text t = foldl (\<lambda>acc u. (31 * acc + unat u) mod 65536) 7 t"

definition demo_sha256_hex_text :: "js_text \<Rightarrow> string" where
  "demo_sha256_hex_text t =
     hex4 (checksum_text t) @ hex4 (checksum_text (rev t)) @ hex4 (length t) @ ''0000''"

text \<open>In the place of the lower-case mapping: the letters of Basic Latin and Latin-1.\<close>

definition demo_toLowerCase :: "js_text \<Rightarrow> js_text" where
  "demo_toLowerCase t =
     map (\<lambda>u. if (0x41 \<le> u \<and> u \<le> 0x5A) \<or> (0xC0 \<le> u \<and> u \<le> 0xDE \<and> u \<noteq> 0xD7)
              then u + 0x20 else u) t"

definition demo_hmac :: "string \<Rightarrow> string \<Rightarrow> string" where
  "demo_hmac key msg = demo_sha256_hex (key @ ''/'' @ msg)"

fun dec_nat :: "nat \<Rightarrow> string" where
  "dec_nat n = (if n < 10 then [''0123456789'' ! n]
                else dec_nat (n div 10) @ [''0123456789'' ! (n mod 10)])"

declare dec_nat.simps [simp del]

definition dec_int :: "int \<Rightarrow> string" where
  "dec_int i = (if i < 0 then CHR ''-'' # dec_nat (nat (- i)) else dec_nat (nat i))"

fun read_nat :: "nat \<Rightarrow> string \<Rightarrow> nat option" where
  "read_nat acc [] = Some acc"
| "read_nat acc (c # cs) =
     (let n = (of_char c :: nat)
      in if 48 \<le> n \<and> n \<le> 57 then read_nat (10 * acc + (n - 48)) cs else None)"

definition read_int :: "string \<Rightarrow> int option" where
  "read_int s =
     (case s of
        [] \<Rightarrow> None
      | c # cs \<Rightarrow>
          if c = CHR ''-'' then (if cs = [] then None else map_option (\<lambda>n. - int n) (read_nat 0 cs))
          else map_option int (read_nat 0 s))"

definition demo_stringify_payload :: "JWTPayload \<Rightarrow> string" where
  "demo_stringify_payload p =
     jwt_userId p @ ''|'' @ jwt_email p @ ''|'' @ jwt_name p @ ''|''
       @ dec_int (jwt_iat p) @ ''|'' @ dec_int (jwt_exp p)"

definition demo_parse_payload :: "string \<Rightarrow> JWTPayload option" where
  "demo_parse_payload s =
     (case split_on CHR ''|'' s of
        [a, b, c, d, e] \<Rightarrow>
          (case read_int d of
             None \<Rightarrow> None
           | Some i \<Rightarrow>
               (case read_int e of
                  None \<Rightarrow> None
                | Some x \<Rightarrow>
                    Some \<lparr>jwt_userId = a, jwt_email = b, jwt_name = c, jwt_iat = i, jwt_exp = x\<rparr>))
      | _ \<Rightarrow> None)"

definition demo_hostname :: "js_text \<Rightarrow> js_text option" where
  "demo_hostname s =
     (if prefix (utf16 ''https://'') s
      then Some (takeWhile (\<lambda>c. c \<noteq> 0x2F) (drop 8 s))
      else None)"

definition demo_analysis :: ParsedAnalysis where
  "demo_analysis =
     \<lparr>pa_classification = ''human-written'',
      pa_confidenceLevel = ''high'',
      pa_confidenceScore = 9 / 10,
      pa_keyIndicators = Some [''varied rhythm''],
      pa_reasoning = ''reads naturally''\<rparr>"

definition demo_parse_analysis :: "string \<Rightarrow> ParsedAnalysis option" where
  "demo_parse_analysis s = (if s = ''{H}'' then Some demo_analysis else None)"

text \<open>The result of the primary provider's verdict on the request below.\<close>

definition demo_result :: AnalysisResult where
  "demo_result =
     \<lparr>res_classification = ''human-written'', res_confidenceLevel = ''high'',
      res_confidenceScore = 9 / 10, res_keyIndicators = [''varied rhythm''],
      res_reasoning = ''reads naturally'',
      res_metadata = \<lparr>md_wordCount = 3, md_provider = OpenAI, md_analysisTime = 400,
                      md_cacheCreatedAt = None\<rparr>\<rparr>"

text \<open>
  In the place of JSON for the column \<open>result\<close>: one document is known. The store of
  \<open>demo_platform\<close> hands a document back as the object; the store of
  \<open>text_store_platform\<close> hands back the text that was bound.
\<close>

definition demo_stringify_result :: "CachedResult \<Rightarrow> string" where
  "demo_stringify_result r = (if r = cached_result_of demo_result then ''{R}'' else ''{}'')"

definition demo_result_column :: "string \<Rightarrow> CachedResult option" where
  "demo_result_column s = (if s = ''{R}'' then Some (cached_result_of demo_result) else None)"

definition demo_platform :: platform where
  "demo_platform =
     \<lparr>hmac_sha256 = demo_hmac,
      sha256_hex = demo_sha256_hex,
      sha256_hex_text = demo_sha256_hex_text,
      toLowerCase = demo_toLowerCase,
      btoa_utf8 = demo_btoa,
      atob_utf8 = demo_atob,
      stringify_payload = demo_stringify_payload,
      parse_payload = demo_parse_payload,
      next_local_midnight = (\<lambda>t. (t div 86400000 + 1) * 86400000),
      url_hostname = demo_hostname,
      parse_analysis = demo_parse_analysis,
      stringify_result = demo_stringify_result,
      result_column = demo_result_column\<rparr>"

definition text_store_platform :: platform where
  "text_store_platform = demo_platform\<lparr>result_column := (\<lambda>s. None)\<rparr>"

definition demo_user :: User where
  "demo_user =
     \<lparr>usr_id = ''u1'',
      usr_google_id = ''g1'',
      usr_email = ''a@b.c'',
      usr_name = ''Ann'',
      usr_picture_url = [],
      usr_created_at = 0,
      usr_last_login_at = 0\<rparr>"

definition demo_signin :: signin_io where
  "demo_signin =
     \<lparr>si_google = GoogleOk \<lparr>g_aud = Some ''cid'', g_sub = Some ''g1'', g_email = Some ''a@b.c'',
                            g_name = Some ''Ann'', g_picture = None\<rparr>,
      si_find = StoreOk, si_update = StoreOk, si_insert = StoreOk,
      si_t_update = 5000, si_uuid = ''u2'', si_t_created = 5000, si_t_login = 5000,
      si_t_iat = 5000, si_t_exp = 5000\<rparr>"

text \<open>A rate-limit check during which every store statement succeeds.\<close>

definition quiet_io :: ratelimit_io where
  "quiet_io =
     \<lparr>rl_t_today = 0, rl_select = StoreOk, rl_t_tomorrow = 0, rl_t_now = 0,
      rl_update = StoreOk, rl_insert = StoreOk\<rparr>"

text \<open>The answer to the first allowed request of a day.\<close>

definition first_request :: RateLimitResult where
  "first_request =
     \<lparr>rl_allowed = True, rl_retryAfter = None, rl_message = None, rl_currentCount = Some 1\<rparr>"

text \<open>
  A request, the environment of a call in which the primary provider answers with a
  failure status and the secondary with a verdict, the same with a verdict from the
  primary, and a later call in which no provider can be reached.
\<close>

definition demo_request :: AnalysisRequest where
  "demo_request =
     \<lparr>rq_url = utf16 ''https://ex.org/a'', rq_text = utf16 ''Hello World again'', rq_userId = ''u1'',
      rq_mode = Quick, rq_lastModified = Some ''2024-01-15T10:30:00Z''\<rparr>"

definition demo_io :: analysis_io where
  "demo_io =
     \<lparr>io_rate = quiet_io, io_cache_select = StoreOk, io_cache_now = 1000,
      io_cache_delete = StoreOk, io_t_start = 1000,
      io_openai = HttpReply False BodyNotJson,
      io_anthropic = HttpReply True (BodyText ''Verdict: {H} end''),
      io_t_end = 1400, io_t_modified = 1500, io_t_created = 1500,
      io_cache_insert = StoreOk\<rparr>"

definition first_io :: analysis_io where
  "first_io = demo_io\<lparr>io_openai := HttpReply True (BodyText ''{H}'')\<rparr>"

definition second_io :: analysis_io where
  "second_io =
     first_io\<lparr>io_cache_now := 60000, io_openai := FetchThrows, io_anthropic := FetchThrows\<rparr>"

text \<open>The cache row that stores the result of the first request.\<close>

definition demo_entry :: CacheEntry where
  "demo_entry =
     \<lparr>ce_url_hash = Some (take 16 (demo_sha256_hex_text (demo_toLowerCase (rq_url demo_request)))),
      ce_content_hash =
        Some (take 16 (demo_sha256_hex_text (demo_toLowerCase (trim (rq_text demo_request))))),
      ce_last_modified = Inl ''2024-01-15T10:30:00Z'',
      ce_full_url = utf16 ''https://ex.org/a'',
      ce_domain = utf16 ''ex.org'',
      ce_mode = Some ''quick'',
      ce_result = ''{R}'',
      ce_created_at = 1500\<rparr>"

text \<open>A store in which user u1 has made n requests on day 0 and the request is cached.\<close>

definition usage_row :: "int \<Rightarrow> UsageAnalytics" where
  "usage_row n = \<lparr>ua_user_id = ''u1'', ua_daily_count = n, ua_created_at = 0\<rparr>"

definition hit_db :: "int \<Rightarrow> database" where
  "hit_db n = empty_db\<lparr>usage_analytics := [usage_row n], cache_entries := [demo_entry]\<rparr>"

text \<open>A store in which the request is cached and nobody has a counter row.\<close>

definition cached_db :: database where
  "cached_db = empty_db\<lparr>cache_entries := [demo_entry]\<rparr>"

section \<open>Strings: splitting and prefixes\<close>

lemma split_on_no_sep: "c \<notin> set a \<Longrightarrow> split_on c a = [a]"
  by (induction a) auto

lemma split_on_append: "c \<notin> set a \<Longrightarrow> split_on c (a @ c # rest) = a # split_on c rest"
  by (induction a) auto

lemma split_on_three:
  assumes "c \<notin> set a" "c \<notin> set b" "c \<notin> set d"
  shows "split_on c (a @ [c] @ b @ [c] @ d) = [a, b, d]"
  using assms by (simp add: split_on_append split_on_no_sep)

lemma remove_first_prefix: "remove_first pat (pat @ s) = s"
proof (cases "pat @ s")
  case Nil
  then show ?thesis by simp
next
  case (Cons a l)
  have "prefix pat (a # l)"
    unfolding Cons [symmetric] by simp
  then have "remove_first pat (a # l) = drop (length pat) (a # l)"
    by simp
  then show ?thesis
    unfolding Cons [symmetric] by simp
qed

lemma find_Some_if_member: "x \<in> set xs \<Longrightarrow> Q x \<Longrightarrow> \<exists>y. find Q xs = Some y"
  by (cases "find Q xs") (auto simp: find_None_iff)

section \<open>The concrete platform encodes and decodes\<close>

lemma demo_btoa_no_dot: "CHR ''.'' \<notin> set (demo_btoa s)"
  by (induction s) auto

lemma demo_atob_Cons:
  "c \<noteq> CHR ''%'' \<Longrightarrow> c \<noteq> CHR ''.'' \<Longrightarrow> demo_atob (c # xs) = map_option ((#) c) (demo_atob xs)"
  by (cases xs) auto

lemma demo_atob_btoa: "demo_atob (demo_btoa s) = Some s"
  by (induction s) (auto simp: demo_atob_Cons)

lemma demo_payload_roundtrip_0:
  "demo_parse_payload (demo_stringify_payload (jwt_payload_of demo_user 0 0))
     = Some (jwt_payload_of demo_user 0 0)"
  by (simp add: demo_parse_payload_def demo_stringify_payload_def jwt_payload_of_def demo_user_def
      dec_int_def dec_nat.simps read_int_def)

lemma demo_payload_roundtrip_999:
  "demo_parse_payload (demo_stringify_payload (jwt_payload_of demo_user 999 1000))
     = Some (jwt_payload_of demo_user 999 1000)"
  by (simp add: demo_parse_payload_def demo_stringify_payload_def jwt_payload_of_def demo_user_def
      dec_int_def dec_nat.simps read_int_def)

section \<open>Tokens: a fresh token verifies\<close>

text \<open>
  What the platform has to provide is asked only of the strings of this token: base64
  text has no dot, decoding undoes encoding, parsing undoes \<open>JSON.stringify\<close>.
\<close>

lemma verifyJWT_generateJWT:
  assumes h: "CHR ''.'' \<notin> set (base64Encode P jwt_header_json)"
    and p: "CHR ''.'' \<notin> set (base64Encode P (stringify_payload P (jwt_payload_of user t_iat t_exp)))"
    and s: "CHR ''.'' \<notin> set (createHMAC P (base64Encode P jwt_header_json @ ''.'' @
              base64Encode P (stringify_payload P (jwt_payload_of user t_iat t_exp))) secret)"
    and d: "base64Decode P (base64Encode P (stringify_payload P (jwt_payload_of user t_iat t_exp)))
              = Some (stringify_payload P (jwt_payload_of user t_iat t_exp))"
    and j: "parse_payload P (stringify_payload P (jwt_payload_of user t_iat t_exp))
              = Some (jwt_payload_of user t_iat t_exp)"
    and e: "\<not> jwt_exp (jwt_payload_of user t_iat t_exp) < now div 1000"
  shows "verifyJWT P (generateJWT P user secret t_iat t_exp) secret now
           = Inr (jwt_payload_of user t_iat t_exp)"
proof -
  let ?h = "base64Encode P jwt_header_json"
  let ?p = "base64Encode P (stringify_payload P (jwt_payload_of user t_iat t_exp))"
  let ?s = "createHMAC P (?h @ ''.'' @ ?p) secret"
  have tok: "generateJWT P user secret t_iat t_exp = ?h @ [CHR ''.''] @ ?p @ [CHR ''.''] @ ?s"
    by (simp add: generateJWT_def Let_def)
  have "split_on CHR ''.'' (generateJWT P user secret t_iat t_exp) = [?h, ?p, ?s]"
    unfolding tok using h p s by (rule split_on_three)
  then show ?thesis
    using d j e by (simp add: verifyJWT_def)
qed

lemma jwt_lifetime:
  "jwt_exp (jwt_payload_of user t_iat t_exp) - jwt_iat (jwt_payload_of user t_iat t_exp)
     = TOKEN_LIFETIME + (t_exp div 1000 - t_iat div 1000)"
  by (simp add: jwt_payload_of_def TOKEN_LIFETIME_def)

lemma jwt_lifetime_same_second:
  "t_iat div 1000 = t_exp div 1000 \<Longrightarrow>
   jwt_exp (jwt_payload_of user t_iat t_exp) - jwt_iat (jwt_payload_of user t_iat t_exp)
     = TOKEN_LIFETIME"
  by (simp add: jwt_lifetime)

lemma demo_token_verifies_0:
  "\<not> 86400 < now div 1000 \<Longrightarrow>
   verifyJWT demo_platform (generateJWT demo_platform demo_user ''k'' 0 0) ''k'' now
     = Inr (jwt_payload_of demo_user 0 0)"
  by (rule verifyJWT_generateJWT)
     (simp_all add: base64Encode_def base64Decode_def createHMAC_def demo_platform_def
        demo_btoa_no_dot demo_atob_btoa demo_payload_roundtrip_0, simp add: jwt_payload_of_def)

text \<open>
  C4. A token freshly issued for an identity verifies under the same secret, and its
  claims carry the identity's id; but \<open>exp - iat\<close> is the lifetime only when the two clock
  readings of \<open>generateJWT\<close> fall into the same second (\<open>jwt_lifetime\<close>). Here the clock
  reads 999 ms for \<open>iat\<close> and 1000 ms for \<open>exp\<close>: the token verifies, and
  \<open>exp - iat\<close> is the lifetime plus one second.
\<close>

theorem token_lifetime_two_clock_reads:
  "verifyJWT demo_platform (generateJWT demo_platform demo_user ''k'' 999 1000) ''k'' 1000
     = Inr (jwt_payload_of demo_user 999 1000)
   \<and> jwt_userId (jwt_payload_of demo_user 999 1000) = usr_id demo_user
   \<and> jwt_exp (jwt_payload_of demo_user 999 1000) - jwt_iat (jwt_payload_of demo_user 999 1000)
       = TOKEN_LIFETIME + 1"
proof -
  have "verifyJWT demo_platform (generateJWT demo_platform demo_user ''k'' 999 1000) ''k'' 1000
          = Inr (jwt_payload_of demo_user 999 1000)"
    by (rule verifyJWT_generateJWT)
       (simp_all add: base64Encode_def base64Decode_def createHMAC_def demo_platform_def
          demo_btoa_no_dot demo_atob_btoa demo_payload_roundtrip_999, simp add: jwt_payload_of_def)
  then show ?thesis
    by (simp add: jwt_lifetime TOKEN_LIFETIME_def) (simp add: jwt_payload_of_def)
qed

section \<open>Revocation\<close>

lemma apply_blacklist_op_keeps:
  assumes "r \<in> set (token_blacklist db)" "op_time op \<le> bl_expires_at r"
  shows "r \<in> set (token_blacklist (apply_blacklist_op P db op))"
  using assms
  by (cases op; cases "case op of Revoke _ _ _ st \<Rightarrow> st | Cleanup _ st \<Rightarrow> st")
     (auto simp: addTokenToBlacklist_def cleanupExpiredTokens_def)

lemma run_blacklist_ops_keeps:
  assumes "r \<in> set (token_blacklist db)" "\<forall>op \<in> set ops. op_time op \<le> bl_expires_at r"
  shows "r \<in> set (token_blacklist (run_blacklist_ops P ops db))"
  using assms unfolding run_blacklist_ops_def
  by (induction ops arbitrary: db) (auto simp: apply_blacklist_op_keeps)

lemma checkTokenBlacklist_listed:
  assumes "r \<in> set (token_blacklist db)" "bl_token_hash r = sha256_hex P token"
    "now < bl_expires_at r"
  shows "\<exists>e. checkTokenBlacklist P token now st db = Inl e"
proof (cases st)
  case StoreOk
  obtain y where
    "find (\<lambda>r. bl_token_hash r = sha256_hex P token \<and> bl_expires_at r > now)
          (token_blacklist db) = Some y"
    using find_Some_if_member [OF assms(1),
        of "\<lambda>r. bl_token_hash r = sha256_hex P token \<and> bl_expires_at r > now"] assms
    by auto
  then show ?thesis using StoreOk by (simp add: checkTokenBlacklist_def)
qed (simp_all add: checkTokenBlacklist_def)

lemma addTokenToBlacklist_Inr:
  "addTokenToBlacklist P token userId now st db = Inr db' \<Longrightarrow>
     st = StoreOk
     \<and> db' = db\<lparr>token_blacklist := token_blacklist db @ [blacklist_row P token userId now]\<rparr>"
  by (cases st) (auto simp: addTokenToBlacklist_def)

text \<open>
  C1. Once \<open>addTokenToBlacklist\<close> has succeeded for a token, \<open>extractUserFromToken\<close>
  with that token fails with "Authentication failed: Invalid token" for as long as the
  revocation record is unexpired: whatever further logouts and cleanups ran before the
  check, whatever the store answers to the lookup, and whatever \<open>verifyJWT\<close> says about
  the token (the statement does not depend on the secret or on the token's own expiry).
\<close>

theorem revoked_token_is_rejected:
  assumes revoke: "addTokenToBlacklist P token userId t_revoke st_revoke db = Inr db1"
    and between: "\<forall>op \<in> set ops. op_time op \<le> t_check"
    and unexpired: "t_check < t_revoke + BLACKLIST_TTL"
    and same: "remove_first ''Bearer '' authorization = token"
  shows "extractUserFromToken P secret authorization t_check t_verify st
           (run_blacklist_ops P ops db1) = Inl AuthenticationFailed"
proof -
  let ?r = "blacklist_row P token userId t_revoke"
  have "?r \<in> set (token_blacklist db1)"
    using addTokenToBlacklist_Inr [OF revoke] by simp
  moreover have exp: "bl_expires_at ?r = t_revoke + BLACKLIST_TTL"
    by (simp add: blacklist_row_def BLACKLIST_TTL_def)
  ultimately have "?r \<in> set (token_blacklist (run_blacklist_ops P ops db1))"
    using between unexpired by (intro run_blacklist_ops_keeps) auto
  moreover have "bl_token_hash ?r = sha256_hex P token"
    by (simp add: blacklist_row_def)
  ultimately obtain e where
    "checkTokenBlacklist P token t_check st (run_blacklist_ops P ops db1) = Inl e"
    using checkTokenBlacklist_listed unexpired exp by metis
  then show ?thesis
    using same by (simp add: extractUserFromToken_def)
qed

text \<open>
  The token of \<open>demo_user\<close>, revoked at 1000 ms, with a cleanup at 2000 ms, is rejected
  at 3000 ms, while \<open>verifyJWT\<close> alone still accepts it.
\<close>

theorem revoked_token_is_rejected_witness:
  "extractUserFromToken demo_platform ''k''
       (''Bearer '' @ generateJWT demo_platform demo_user ''k'' 0 0) 3000 3000 StoreOk
       (run_blacklist_ops demo_platform [Cleanup 2000 StoreOk]
          (empty_db\<lparr>token_blacklist :=
             [blacklist_row demo_platform (generateJWT demo_platform demo_user ''k'' 0 0)
                ''u1'' 1000]\<rparr>))
     = Inl AuthenticationFailed
   \<and> verifyJWT demo_platform (generateJWT demo_platform demo_user ''k'' 0 0) ''k'' 3000
     = Inr (jwt_payload_of demo_user 0 0)"
proof -
  let ?tok = "generateJWT demo_platform demo_user ''k'' 0 0"
  have revoke: "addTokenToBlacklist demo_platform ?tok ''u1'' 1000 StoreOk empty_db
                  = Inr (empty_db\<lparr>token_blacklist := [blacklist_row demo_platform ?tok ''u1'' 1000]\<rparr>)"
    by (simp add: addTokenToBlacklist_def empty_db_def)
  have between: "\<forall>op \<in> set [Cleanup 2000 StoreOk]. op_time op \<le> 3000"
    by simp
  have unexpired: "(3000::int) < 1000 + BLACKLIST_TTL"
    by (simp add: BLACKLIST_TTL_def)
  have same: "remove_first ''Bearer '' (''Bearer '' @ ?tok) = ?tok"
    by (rule remove_first_prefix)
  show ?thesis
    using revoked_token_is_rejected [OF revoke between unexpired same, of "''k''" 3000 StoreOk]
      demo_token_verifies_0 [of 3000]
    by simp
qed

section \<open>Authentication failures as the caller sees them\<close>

lemma extractUserFromToken_fails:
  assumes "isl (verifyJWT P (remove_first ''Bearer '' a) secret t_verify)
           \<or> isl (checkTokenBlacklist P (remove_first ''Bearer '' a) t_check st db)"
  shows "isl (extractUserFromToken P secret a t_check t_verify st db)"
  using assms
  by (auto simp: extractUserFromToken_def Let_def isl_def split: sum.splits)

text \<open>
  Called directly (as the logout and verify handlers do), \<open>extractUserFromToken\<close> lets
  the error of \<open>verifyJWT\<close> through: the promise is returned, not awaited.
\<close>

lemma extractUserFromToken_passes_verify_error:
  "extractUserFromToken demo_platform ''k'' ''Bearer a.b'' 0 0 StoreOk empty_db
     = Inl InvalidTokenFormat"
  by (simp add: extractUserFromToken_def checkTokenBlacklist_def verifyJWT_def empty_db_def)

text \<open>
  C3, as amended. Through \<open>requireAuth\<close>, every failure of the token checks (a token
  that \<open>verifyJWT\<close> rejects for its structure, signature, payload or expiry, a revoked
  token, a store error during the revocation lookup) reaches the caller as the one error
  "Authentication required: Invalid token". A missing header and a header without the
  \<open>Bearer\<close> prefix are reported with an error of their own each.
\<close>

theorem requireAuth_error_kinds:
  "(header = None \<or> header = Some [] \<longrightarrow>
      requireAuth P secret header t_check t_verify st db = Inl AuthRequiredMissingHeader)
   \<and> (\<forall>a. header = Some a \<and> a \<noteq> [] \<and> \<not> prefix ''Bearer '' a \<longrightarrow>
      requireAuth P secret header t_check t_verify st db = Inl AuthRequiredInvalidFormat)
   \<and> (\<forall>a. header = Some a \<and> prefix ''Bearer '' a
          \<and> (isl (verifyJWT P (remove_first ''Bearer '' a) secret t_verify)
              \<or> isl (checkTokenBlacklist P (remove_first ''Bearer '' a) t_check st db)) \<longrightarrow>
      requireAuth P secret header t_check t_verify st db = Inl AuthRequiredInvalidToken)"
proof (intro conjI allI impI)
  assume "header = None \<or> header = Some []"
  then show "requireAuth P secret header t_check t_verify st db = Inl AuthRequiredMissingHeader"
    by (auto simp: requireAuth_def)
next
  fix a
  assume "header = Some a \<and> a \<noteq> [] \<and> \<not> prefix ''Bearer '' a"
  then show "requireAuth P secret header t_check t_verify st db = Inl AuthRequiredInvalidFormat"
    by (simp add: requireAuth_def)
next
  fix a
  assume a: "header = Some a \<and> prefix ''Bearer '' a
          \<and> (isl (verifyJWT P (remove_first ''Bearer '' a) secret t_verify)
              \<or> isl (checkTokenBlacklist P (remove_first ''Bearer '' a) t_check st db))"
  then have "isl (extractUserFromToken P secret a t_check t_verify st db)"
    using extractUserFromToken_fails by blast
  moreover have "a \<noteq> []"
    using a by auto
  ultimately show "requireAuth P secret header t_check t_verify st db = Inl AuthRequiredInvalidToken"
    using a by (auto simp: requireAuth_def isl_def)
qed

theorem requireAuth_error_kinds_witness:
  "requireAuth demo_platform ''k'' (Some []) 0 0 StoreOk empty_db = Inl AuthRequiredMissingHeader
   \<and> requireAuth demo_platform ''k'' (Some ''Basic abc'') 0 0 StoreOk empty_db
       = Inl AuthRequiredInvalidFormat
   \<and> requireAuth demo_platform ''k'' (Some ''Bearer abc'') 0 0 StoreOk empty_db
       = Inl AuthRequiredInvalidToken"
proof -
  have v: "isl (verifyJWT demo_platform (remove_first ''Bearer '' ''Bearer abc'') ''k'' 0)"
    by (simp add: verifyJWT_def)
  show ?thesis
    using requireAuth_error_kinds [of "Some []" demo_platform "''k''" 0 0 StoreOk empty_db]
      requireAuth_error_kinds [of "Some ''Basic abc''" demo_platform "''k''" 0 0 StoreOk empty_db]
      requireAuth_error_kinds [of "Some ''Bearer abc''" demo_platform "''k''" 0 0 StoreOk empty_db]
      v
    by simp
qed

text \<open>
  Against C3 as stated: a request without the header, one with another scheme and one
  with a malformed token are answered with three different errors.
\<close>

theorem auth_failures_are_told_apart:
  "requireAuth demo_platform ''k'' None 0 0 StoreOk empty_db = Inl AuthRequiredMissingHeader
   \<and> requireAuth demo_platform ''k'' (Some ''Token abc'') 0 0 StoreOk empty_db
       = Inl AuthRequiredInvalidFormat
   \<and> requireAuth demo_platform ''k'' (Some ''Bearer a.b'') 0 0 StoreOk empty_db
       = Inl AuthRequiredInvalidToken
   \<and> AuthRequiredMissingHeader \<noteq> AuthRequiredInvalidFormat
   \<and> AuthRequiredInvalidFormat \<noteq> AuthRequiredInvalidToken
   \<and> AuthRequiredMissingHeader \<noteq> AuthRequiredInvalidToken"
  by (simp add: requireAuth_def extractUserFromToken_def checkTokenBlacklist_def verifyJWT_def
      empty_db_def)

section \<open>The expiry of a revocation record\<close>

text \<open>
  C9, as amended. \<open>addTokenToBlacklist\<close> inserts one record: the token's hash, the user
  id, and as expiry the time of the revocation plus 24 hours. The expiry is not read from
  the token. For a token that \<open>generateJWT\<close> issued no later than its revocation, the
  record does not expire before the token does.
\<close>

theorem revocation_record_expiry:
  "(\<forall>db'. addTokenToBlacklist P token userId now st db = Inr db' \<longrightarrow>
      token_blacklist db' = token_blacklist db @ [blacklist_row P token userId now]
      \<and> bl_token_hash (blacklist_row P token userId now) = sha256_hex P token
      \<and> bl_user_id (blacklist_row P token userId now) = userId
      \<and> bl_expires_at (blacklist_row P token userId now) = now + BLACKLIST_TTL)
   \<and> (t_exp \<le> now \<longrightarrow>
      jwt_exp (jwt_payload_of user t_iat t_exp) * 1000
        \<le> bl_expires_at (blacklist_row P token userId now))"
proof (intro conjI allI impI)
  fix db'
  assume "addTokenToBlacklist P token userId now st db = Inr db'"
  from addTokenToBlacklist_Inr [OF this]
  show "token_blacklist db' = token_blacklist db @ [blacklist_row P token userId now]"
    by simp
next
  assume "t_exp \<le> now"
  moreover have "t_exp div 1000 * 1000 \<le> t_exp"
    by simp
  ultimately show "jwt_exp (jwt_payload_of user t_iat t_exp) * 1000
        \<le> bl_expires_at (blacklist_row P token userId now)"
    by (simp add: jwt_payload_of_def blacklist_row_def algebra_simps)
qed (simp_all add: blacklist_row_def BLACKLIST_TTL_def)

theorem revocation_record_expiry_witness:
  "token_blacklist (empty_db\<lparr>token_blacklist := [blacklist_row demo_platform ''a.b.c'' ''u1'' 3600000]\<rparr>)
     = token_blacklist empty_db @ [blacklist_row demo_platform ''a.b.c'' ''u1'' 3600000]
   \<and> bl_expires_at (blacklist_row demo_platform ''a.b.c'' ''u1'' 3600000) = 3600000 + BLACKLIST_TTL
   \<and> jwt_exp (jwt_payload_of demo_user 0 0) * 1000
        \<le> bl_expires_at (blacklist_row demo_platform ''a.b.c'' ''u1'' 3600000)"
proof -
  have revoke: "addTokenToBlacklist demo_platform ''a.b.c'' ''u1'' 3600000 StoreOk empty_db
      = Inr (empty_db\<lparr>token_blacklist := [blacklist_row demo_platform ''a.b.c'' ''u1'' 3600000]\<rparr>)"
    by (simp add: addTokenToBlacklist_def empty_db_def)
  show ?thesis
    using revocation_record_expiry [of demo_platform "''a.b.c''" "''u1''" 3600000 StoreOk empty_db
        0 demo_user 0] revoke
    by simp
qed

text \<open>
  Against C9 as stated: the token issued at time 0 carries the expiry 86400 s; revoked
  one hour later, its record expires at 90000 s.
\<close>

theorem revocation_expiry_is_not_the_token_expiry:
  "verifyJWT demo_platform (generateJWT demo_platform demo_user ''k'' 0 0) ''k'' 3600000
     = Inr (jwt_payload_of demo_user 0 0)
   \<and> jwt_exp (jwt_payload_of demo_user 0 0) * 1000 = 86400000
   \<and> addTokenToBlacklist demo_platform (generateJWT demo_platform demo_user ''k'' 0 0) ''u1''
        3600000 StoreOk empty_db
     = Inr (empty_db\<lparr>token_blacklist :=
          [blacklist_row demo_platform (generateJWT demo_platform demo_user ''k'' 0 0) ''u1'' 3600000]\<rparr>)
   \<and> bl_expires_at (blacklist_row demo_platform (generateJWT demo_platform demo_user ''k'' 0 0)
        ''u1'' 3600000) = 90000000
   \<and> bl_expires_at (blacklist_row demo_platform (generateJWT demo_platform demo_user ''k'' 0 0)
        ''u1'' 3600000) \<noteq> jwt_exp (jwt_payload_of demo_user 0 0) * 1000"
  using demo_token_verifies_0 [of 3600000]
  by (simp add: addTokenToBlacklist_def empty_db_def blacklist_row_def jwt_payload_of_def)

section \<open>Sign-in: the new-user flag\<close>


lemma findOrCreateUser_existing:
  assumes "find (\<lambda>u. usr_google_id u = or_empty (g_sub g)) (users db) = Some row"
    and "findOrCreateUser g io db = Inr (user, db')"
  shows "user = row
     \<and> (si_update io = StoreOk \<longrightarrow>
          users db' = map (\<lambda>u. if usr_id u = usr_id row
                                then u\<lparr>usr_last_login_at := si_t_update io\<rparr> else u) (users db))
     \<and> (si_update io \<noteq> StoreOk \<longrightarrow> db' = db)"
  using assms
  by (cases "si_find io"; cases "si_update io") (auto simp: findOrCreateUser_def)

lemma findOrCreateUser_new:
  assumes "find (\<lambda>u. usr_google_id u = or_empty (g_sub g)) (users db) = None"
    and "findOrCreateUser g io db = Inr (user, db')"
  shows "usr_id user = si_uuid io \<and> usr_created_at user = si_t_created io
     \<and> usr_last_login_at user = si_t_login io \<and> users db' = users db @ [user]"
  using assms
  by (cases "si_find io"; cases "si_insert io") (auto simp: findOrCreateUser_def Let_def)

text \<open>
  C10. A successful sign-in of a user who already has a row returns that row as the
  \<open>SELECT\<close> read it, before the \<open>UPDATE\<close> of \<open>last_login_at\<close>, and \<open>isNewUser\<close>
  compares \<open>created_at\<close> with \<open>last_login_at\<close> of that row. So a user whose stored
  \<open>last_login_at\<close> still equals \<open>created_at\<close> is reported as new once more.
\<close>

theorem isNewUser_compares_row_as_read:
  assumes google: "si_google io = GoogleOk g"
    and row: "find (\<lambda>u. usr_google_id u = or_empty (g_sub g)) (users db) = Some row"
    and ok: "authenticateWithGoogle P clientId secret io db = Inr (resp, db')"
  shows "ar_user resp = row
     \<and> ar_isNewUser resp = (usr_created_at row = usr_last_login_at row)
     \<and> (si_update io = StoreOk \<longrightarrow>
          users db' = map (\<lambda>u. if usr_id u = usr_id row
                                then u\<lparr>usr_last_login_at := si_t_update io\<rparr> else u) (users db))
     \<and> (usr_last_login_at row = usr_created_at row \<longrightarrow> ar_isNewUser resp)"
proof -
  from ok google obtain user where
    f: "findOrCreateUser g io db = Inr (user, db')"
    and r: "resp = \<lparr>ar_token = generateJWT P user secret (si_t_iat io) (si_t_exp io),
                    ar_user = user,
                    ar_isNewUser = (usr_created_at user = usr_last_login_at user)\<rparr>"
    by (auto simp: authenticateWithGoogle_def verifyGoogleToken_def
        split: sum.splits if_splits prod.splits)
  from findOrCreateUser_existing [OF row f] r show ?thesis
    by auto
qed

text \<open>
  The second sign-in of \<open>demo_user\<close>, whose row was written with equal timestamps.
\<close>

theorem isNewUser_compares_row_as_read_witness:
  "authenticateWithGoogle demo_platform ''cid'' ''k'' demo_signin (empty_db\<lparr>users := [demo_user]\<rparr>)
     = Inr (\<lparr>ar_token = generateJWT demo_platform demo_user ''k'' 5000 5000,
             ar_user = demo_user, ar_isNewUser = True\<rparr>,
            empty_db\<lparr>users := [demo_user\<lparr>usr_last_login_at := 5000\<rparr>]\<rparr>)
   \<and> usr_last_login_at demo_user = usr_created_at demo_user"
proof -
  let ?db = "empty_db\<lparr>users := [demo_user]\<rparr>"
  let ?g = "\<lparr>g_aud = Some ''cid'', g_sub = Some ''g1'', g_email = Some ''a@b.c'',
             g_name = Some ''Ann'', g_picture = None\<rparr>"
  have google: "si_google demo_signin = GoogleOk ?g"
    by (simp add: demo_signin_def)
  have row: "find (\<lambda>u. usr_google_id u = or_empty (g_sub ?g)) (users ?db) = Some demo_user"
    by (simp add: or_empty_def demo_user_def)
  obtain resp db' where
    ok: "authenticateWithGoogle demo_platform ''cid'' ''k'' demo_signin ?db = Inr (resp, db')"
    by (simp add: authenticateWithGoogle_def verifyGoogleToken_def findOrCreateUser_def
        demo_signin_def or_empty_def demo_user_def)
  have tok: "ar_token resp = generateJWT demo_platform demo_user ''k'' 5000 5000"
    using ok
    by (auto simp: authenticateWithGoogle_def verifyGoogleToken_def findOrCreateUser_def
        demo_signin_def or_empty_def demo_user_def)
  have db': "db' = empty_db\<lparr>users := users db'\<rparr>"
    using ok
    by (auto simp: authenticateWithGoogle_def verifyGoogleToken_def findOrCreateUser_def
        demo_signin_def or_empty_def demo_user_def empty_db_def)
  have upd: "si_update demo_signin = StoreOk" "si_t_update demo_signin = 5000"
    by (simp_all add: demo_signin_def)
  have "resp = \<lparr>ar_token = generateJWT demo_platform demo_user ''k'' 5000 5000,
             ar_user = demo_user, ar_isNewUser = True\<rparr>"
    using isNewUser_compares_row_as_read [OF google row ok] tok
    by (cases resp) (simp add: demo_user_def)
  moreover have "users db' = [demo_user\<lparr>usr_last_login_at := 5000\<rparr>]"
    using isNewUser_compares_row_as_read [OF google row ok] upd
    by simp
  ultimately show ?thesis
    using ok db' by (simp add: demo_user_def)
qed


section \<open>The daily counter\<close>


lemma map_if_unchanged: "\<forall>r \<in> set xs. \<not> Q r \<Longrightarrow> map (\<lambda>r. if Q r then f r else r) xs = xs"
  by (induction xs) auto

lemma checkRateLimit_no_row:
  assumes "userId \<noteq> []" "rl_select io = StoreOk" "rl_update io = StoreOk"
    and "\<forall>r \<in> set (usage_analytics db).
           \<not> (ua_user_id r = userId \<and> ua_created_at r = utc_day (rl_t_today io))"
  shows "checkRateLimit P userId io db = (first_request, db)"
proof -
  have "find (\<lambda>r. ua_user_id r = userId \<and> ua_created_at r = utc_day (rl_t_today io))
             (usage_analytics db) = None"
    using assms(4) by (simp add: find_None_iff)
  moreover have "incrementUsageForUser userId (utc_day (rl_t_today io)) io db = db"
    using assms(3,4) by (simp add: incrementUsageForUser_def incrementUsage_def map_if_unchanged)
  ultimately show ?thesis
    using assms(1,2) by (simp add: checkRateLimit_def DAILY_LIMIT_def Let_def first_request_def)
qed

lemma checkRateLimit_seq_no_row:
  assumes "userId \<noteq> []"
    and "\<forall>io \<in> set ios. rl_select io = StoreOk \<and> rl_update io = StoreOk"
    and "\<forall>io \<in> set ios. \<forall>r \<in> set (usage_analytics db).
           \<not> (ua_user_id r = userId \<and> ua_created_at r = utc_day (rl_t_today io))"
  shows "checkRateLimit_seq P userId ios db = (map (\<lambda>_. first_request) ios, db)"
  using assms
  by (induction ios) (simp_all add: checkRateLimit_no_row)

text \<open>
  C2. With no store errors the \<open>UPDATE\<close> of \<open>incrementUsage\<close> succeeds also when
  there is no row to update, and the \<open>INSERT\<close> is only tried after a failed \<open>UPDATE\<close>:
  the counter row is never created. Fifty-one requests of one user on one day, starting
  from an empty table, are all allowed with count 1, and the table is still empty.
\<close>

theorem counter_row_is_never_created:
  "checkRateLimit_seq demo_platform ''u1'' (replicate 51 quiet_io) empty_db
     = (replicate 51 first_request, empty_db)
   \<and> rl_allowed first_request \<and> rl_currentCount first_request = Some 1
   \<and> usage_analytics empty_db = []"
proof -
  have "checkRateLimit_seq demo_platform ''u1'' (replicate 51 quiet_io) empty_db
          = (map (\<lambda>_. first_request) (replicate 51 quiet_io), empty_db)"
    by (rule checkRateLimit_seq_no_row) (simp_all add: quiet_io_def empty_db_def)
  then show ?thesis
    by (simp add: first_request_def empty_db_def)
qed

text \<open>
  What does work: an existing row is incremented up to the limit and the request at the
  limit is refused; and the row comes into being when the \<open>UPDATE\<close> reports an error.
\<close>

lemma checkRateLimit_existing_row:
  assumes "userId \<noteq> []" "rl_select io = StoreOk"
    and "find (\<lambda>r. ua_user_id r = userId \<and> ua_created_at r = utc_day (rl_t_today io))
              (usage_analytics db) = Some row"
  shows "ua_daily_count row < DAILY_LIMIT \<Longrightarrow>
           fst (checkRateLimit P userId io db)
             = \<lparr>rl_allowed = True, rl_retryAfter = None, rl_message = None,
                rl_currentCount = Some (ua_daily_count row + 1)\<rparr>"
    and "ua_daily_count row < DAILY_LIMIT \<Longrightarrow> rl_update io = StoreOk \<Longrightarrow>
           usage_analytics (snd (checkRateLimit P userId io db))
             = map (\<lambda>r. if ua_user_id r = userId \<and> ua_created_at r = utc_day (rl_t_today io)
                         then r\<lparr>ua_daily_count := ua_daily_count r + 1\<rparr> else r)
                   (usage_analytics db)"
    and "DAILY_LIMIT \<le> ua_daily_count row \<Longrightarrow>
           checkRateLimit P userId io db
             = (\<lparr>rl_allowed = False,
                 rl_retryAfter = Some (ceil_div_1000
                                   (next_local_midnight P (rl_t_tomorrow io) - rl_t_now io)),
                 rl_message = Some ''Daily limit exceeded'',
                 rl_currentCount = Some (ua_daily_count row)\<rparr>, db)"
  using assms
  by (simp_all add: checkRateLimit_def DAILY_LIMIT_def Let_def incrementUsageForUser_def
      incrementUsage_def)

lemma checkRateLimit_update_error_inserts:
  assumes "userId \<noteq> []" "rl_select io = StoreOk" "rl_update io = StoreError"
    "rl_insert io = StoreOk"
    and "\<forall>r \<in> set (usage_analytics db).
           \<not> (ua_user_id r = userId \<and> ua_created_at r = utc_day (rl_t_today io))"
  shows "checkRateLimit P userId io db
           = (first_request,
              db\<lparr>usage_analytics := usage_analytics db
                   @ [\<lparr>ua_user_id = userId, ua_daily_count = 1,
                        ua_created_at = utc_day (rl_t_today io)\<rparr>]\<rparr>)"
proof -
  have "find (\<lambda>r. ua_user_id r = userId \<and> ua_created_at r = utc_day (rl_t_today io))
             (usage_analytics db) = None"
    using assms(5) by (simp add: find_None_iff)
  then show ?thesis
    using assms(1-4)
    by (simp add: checkRateLimit_def DAILY_LIMIT_def Let_def first_request_def incrementUsageForUser_def
        incrementUsage_def)
qed

section \<open>The cache key\<close>

lemma dropWhile_spaces_append:
  "\<forall>c \<in> set l. is_space c \<Longrightarrow> dropWhile is_space (l @ s) = dropWhile is_space s"
  by (induction l) auto

lemma trim_pad:
  assumes l: "\<forall>c \<in> set l. is_space c" and r: "\<forall>c \<in> set r. is_space c"
  shows "trim (l @ s @ r) = trim s"
proof -
  have 1: "dropWhile is_space (l @ s @ r) = dropWhile is_space (s @ r)"
    using l by (rule dropWhile_spaces_append)
  have 2: "dropWhile is_space (rev (dropWhile is_space (s @ r)))
             = dropWhile is_space (rev (dropWhile is_space s))"
  proof (cases "\<forall>c \<in> set s. is_space c")
    case True
    then have a: "dropWhile is_space (s @ r) = []" and b: "dropWhile is_space s = []"
      using r by simp_all
    show ?thesis unfolding a b by simp
  next
    case False
    then obtain x where "x \<in> set s" "\<not> is_space x"
      by blast
    then have "dropWhile is_space (s @ r) = dropWhile is_space s @ r"
      by (rule dropWhile_append1)
    then show ?thesis
      using r by (simp add: dropWhile_spaces_append)
  qed
  show ?thesis
    by (simp add: trim_def 1 2)
qed

text \<open>
  C5, as amended. The key is the hash of the lower-cased url, the hash of the trimmed,
  lower-cased text and the mode tag, joined by underscores; the freshness token
  (\<open>lastModified\<close>) is not part of it. So a request whose text is any text \<open>t\<close> with
  white space put before and after it has the key of every request with the same url and
  mode whose text, trimmed and lower-cased, is \<open>t\<close> trimmed and lower-cased: texts that
  differ only in the white space around them, and texts that differ only in letter case
  as \<open>toLowerCase\<close> decides it. Requests of different modes have different keys. The
  white space is all that \<open>trim\<close> strips and the lower-case mapping is the platform's
  own, on all of Unicode.
\<close>

theorem cache_key_sensitivity:
  "generateCacheKey P r
     = take 16 (sha256_hex_text P (toLowerCase P (rq_url r))) @ ''_''
       @ take 16 (sha256_hex_text P (toLowerCase P (trim (rq_text r)))) @ ''_''
       @ mode_tag (rq_mode r)
   \<and> generateCacheKey P (r\<lparr>rq_lastModified := m\<rparr>) = generateCacheKey P r
   \<and> ((\<forall>c \<in> set lead. is_space c) \<and> (\<forall>c \<in> set trail. is_space c)
        \<and> toLowerCase P (trim t) = toLowerCase P (trim (rq_text r)) \<longrightarrow>
      generateCacheKey P (r\<lparr>rq_text := lead @ t @ trail\<rparr>) = generateCacheKey P r)
   \<and> (rq_mode r \<noteq> rq_mode r' \<longrightarrow> generateCacheKey P r \<noteq> generateCacheKey P r')"
proof (intro conjI impI)
  assume h: "(\<forall>c \<in> set lead. is_space c) \<and> (\<forall>c \<in> set trail. is_space c)
        \<and> toLowerCase P (trim t) = toLowerCase P (trim (rq_text r))"
  then have "toLowerCase P (trim (lead @ t @ trail)) = toLowerCase P (trim (rq_text r))"
    by (simp add: trim_pad)
  then show "generateCacheKey P (r\<lparr>rq_text := lead @ t @ trail\<rparr>) = generateCacheKey P r"
    by (simp add: generateCacheKey_def)
next
  assume d: "rq_mode r \<noteq> rq_mode r'"
  show "generateCacheKey P r \<noteq> generateCacheKey P r'"
  proof
    assume "generateCacheKey P r = generateCacheKey P r'"
    then have "last (generateCacheKey P r) = last (generateCacheKey P r')"
      by simp
    then show False
      using d by (cases "rq_mode r"; cases "rq_mode r'") (simp_all add: generateCacheKey_def)
  qed
qed (simp_all add: generateCacheKey_def)

text \<open>
  Where lower-casing leaves the white space at the ends of the two texts in its place
  (it commutes with \<open>trim\<close> on them), texts with the same lower-case image have the
  same key.
\<close>

lemma same_key_up_to_case:
  assumes "toLowerCase P (trim t) = trim (toLowerCase P t)"
    and "toLowerCase P (trim t') = trim (toLowerCase P t')"
    and "toLowerCase P t = toLowerCase P t'"
  shows "generateCacheKey P (r\<lparr>rq_text := t\<rparr>) = generateCacheKey P (r\<lparr>rq_text := t'\<rparr>)"
  using assms by (simp add: generateCacheKey_def)

text \<open>
  The text \<open>CAF\<close> with a capital E acute (U+00C9), after a no-break space (U+00A0) and a
  space and before a line separator (U+2028), has the key of \<open>caf\<close> with a small e acute
  (U+00E9); the quick and the deep request have different keys.
\<close>

theorem cache_key_sensitivity_witness:
  "generateCacheKey demo_platform
       (demo_request\<lparr>rq_text := [0xA0, 0x20] @ (utf16 ''CAF'' @ [0xC9]) @ [0x2028]\<rparr>)
     = generateCacheKey demo_platform (demo_request\<lparr>rq_text := utf16 ''caf'' @ [0xE9]\<rparr>)
   \<and> generateCacheKey demo_platform demo_request
       \<noteq> generateCacheKey demo_platform (demo_request\<lparr>rq_mode := Deep\<rparr>)"
proof -
  let ?r = "demo_request\<lparr>rq_text := utf16 ''caf'' @ [0xE9]\<rparr>"
  have sp: "(\<forall>c \<in> set [0xA0, 0x20]. is_space c) \<and> (\<forall>c \<in> set [0x2028]. is_space c)"
    by (simp add: is_space_def)
  have lo: "toLowerCase demo_platform (trim (utf16 ''CAF'' @ [0xC9]))
              = toLowerCase demo_platform (trim (rq_text ?r))"
    by (simp add: demo_platform_def demo_toLowerCase_def trim_def is_space_def utf16_def)
  have md: "rq_mode demo_request \<noteq> rq_mode (demo_request\<lparr>rq_mode := Deep\<rparr>)"
    by (simp add: demo_request_def)
  note k = cache_key_sensitivity [of demo_platform ?r None "[0xA0, 0x20]" "[0x2028]"
      "utf16 ''CAF'' @ [0xC9]" "demo_request\<lparr>rq_mode := Deep\<rparr>"]
  note k' = cache_key_sensitivity [of demo_platform demo_request None "[]" "[]"
      "rq_text demo_request" "demo_request\<lparr>rq_mode := Deep\<rparr>"]
  from k sp lo have same:
    "generateCacheKey demo_platform (?r\<lparr>rq_text := [0xA0, 0x20] @ (utf16 ''CAF'' @ [0xC9]) @ [0x2028]\<rparr>)
       = generateCacheKey demo_platform ?r"
    by blast
  from k' md have differ:
    "generateCacheKey demo_platform demo_request
       \<noteq> generateCacheKey demo_platform (demo_request\<lparr>rq_mode := Deep\<rparr>)"
    by blast
  from same differ show ?thesis
    by simp
qed

text \<open>
  Against C5 as stated: requests that differ in the freshness token, or of which only
  one has a freshness token, have the same key.
\<close>

theorem cache_key_ignores_freshness_token:
  "rq_lastModified (demo_request\<lparr>rq_lastModified := Some ''2024-02-20T08:00:00Z''\<rparr>)
     \<noteq> rq_lastModified demo_request
   \<and> rq_lastModified (demo_request\<lparr>rq_lastModified := None\<rparr>) \<noteq> rq_lastModified demo_request
   \<and> generateCacheKey demo_platform (demo_request\<lparr>rq_lastModified := Some ''2024-02-20T08:00:00Z''\<rparr>)
     = generateCacheKey demo_platform demo_request
   \<and> generateCacheKey demo_platform (demo_request\<lparr>rq_lastModified := None\<rparr>)
     = generateCacheKey demo_platform demo_request"
  by (simp add: generateCacheKey_def demo_request_def)

section \<open>Provider fallback\<close>

lemma analyzeWithOpenAI_events [simp]: "snd (analyzeWithOpenAI P req reply) = [ProviderCall OpenAI]"
  by (simp add: analyzeWithOpenAI_def Let_def)

lemma analyzeWithAnthropic_events [simp]:
  "snd (analyzeWithAnthropic P req reply) = [ProviderCall Anthropic]"
  by (simp add: analyzeWithAnthropic_def Let_def)

lemma parseAnalysisResult_fails_iff:
  "isl (parseAnalysisResult P a prov wc) \<longleftrightarrow>
     match_json a = None \<or> (\<exists>j. match_json a = Some j \<and> parse_analysis P j = None)"
  by (auto simp: parseAnalysisResult_def split: option.splits)

lemma analyzeWithOpenAI_fails_iff:
  "isl (fst (analyzeWithOpenAI P req reply)) \<longleftrightarrow>
     reply = FetchThrows \<or> (\<exists>b. reply = HttpReply False b)
     \<or> reply = HttpReply True BodyNotJson \<or> reply = HttpReply True BodyWithoutText
     \<or> (\<exists>a. reply = HttpReply True (BodyText a)
           \<and> (a = [] \<or> match_json a = None
               \<or> (\<exists>j. match_json a = Some j \<and> parse_analysis P j = None)))"
  by (cases reply; cases "case reply of HttpReply _ b \<Rightarrow> b | _ \<Rightarrow> BodyNotJson")
     (auto simp: analyzeWithOpenAI_def Let_def parseAnalysisResult_fails_iff)

lemma analyzeWithAnthropic_provider:
  "fst (analyzeWithAnthropic P req reply) = Inr r \<Longrightarrow> md_provider (res_metadata r) = Anthropic"
  by (auto simp: analyzeWithAnthropic_def Let_def parseAnalysisResult_def
      split: provider_reply.splits provider_body.splits if_splits option.splits)

lemma performAnalysis_fallback:
  assumes "fst (analyzeWithOpenAI P req (io_openai io)) = Inl e"
  shows "performAnalysis P req io =
           (case fst (analyzeWithAnthropic P req (io_anthropic io)) of
              Inr r \<Rightarrow> Inr (with_analysisTime r (io_t_end io - io_t_start io))
            | Inl _ \<Rightarrow> Inl ContentAnalysisFailed,
            [ProviderCall OpenAI, ProviderCall Anthropic])"
proof -
  obtain r1 ev1 where a: "analyzeWithOpenAI P req (io_openai io) = (r1, ev1)"
    by (cases "analyzeWithOpenAI P req (io_openai io)")
  obtain r2 ev2 where b: "analyzeWithAnthropic P req (io_anthropic io) = (r2, ev2)"
    by (cases "analyzeWithAnthropic P req (io_anthropic io)")
  have "ev1 = [ProviderCall OpenAI]" "ev2 = [ProviderCall Anthropic]"
    using a b analyzeWithOpenAI_events [of P req "io_openai io"]
      analyzeWithAnthropic_events [of P req "io_anthropic io"] by simp_all
  then show ?thesis
    using assms a b by (cases r2) (simp_all add: performAnalysis_def)
qed

lemma analyzeContent_on_miss:
  assumes "rl_allowed (fst (checkRateLimit P userId (io_rate io) db))"
    and "fst (getCache P (generateCacheKey P req) (io_cache_select io) (io_cache_now io)
                (io_cache_delete io) (snd (checkRateLimit P userId (io_rate io) db))) = None"
  shows "fst (analyzeContent P req io userId db)
           = (case fst (performAnalysis P req io) of
                Inl e \<Rightarrow> Inl e
              | Inr a \<Rightarrow> Inr \<lparr>api_result = a, api_cacheStatus = Miss\<rparr>)"
    and "snd (snd (analyzeContent P req io userId db))
           = [RateLimitCheck, CacheLookup] @ snd (performAnalysis P req io)
             @ (case fst (performAnalysis P req io) of Inl _ \<Rightarrow> [] | Inr _ \<Rightarrow> [CacheWrite])"
  using assms
  by (auto simp: analyzeContent_def Let_def split: prod.splits option.splits sum.splits)

text \<open>
  C7. On a cache miss, when the call of the primary provider fails (whatever
  \<open>analyzeWithOpenAI\<close> throws: \<open>analyzeWithOpenAI_fails_iff\<close> lists the replies), the
  secondary provider is called once and its result, with the elapsed time, is returned
  and written to the cache; when the secondary fails too, the request fails with
  "Content analysis failed. Please try again later." and the trace ends after the two
  provider calls.
\<close>

theorem provider_fallback:
  assumes allowed: "rl_allowed (fst (checkRateLimit P userId (io_rate io) db))"
    and miss: "fst (getCache P (generateCacheKey P req) (io_cache_select io) (io_cache_now io)
                (io_cache_delete io) (snd (checkRateLimit P userId (io_rate io) db))) = None"
    and primary: "fst (analyzeWithOpenAI P req (io_openai io)) = Inl e"
  shows "(\<forall>r. fst (analyzeWithAnthropic P req (io_anthropic io)) = Inr r \<longrightarrow>
            fst (analyzeContent P req io userId db)
              = Inr \<lparr>api_result = with_analysisTime r (io_t_end io - io_t_start io),
                     api_cacheStatus = Miss\<rparr>
            \<and> md_provider (res_metadata r) = Anthropic
            \<and> snd (snd (analyzeContent P req io userId db))
                = [RateLimitCheck, CacheLookup, ProviderCall OpenAI, ProviderCall Anthropic,
                   CacheWrite])
       \<and> (\<forall>e'. fst (analyzeWithAnthropic P req (io_anthropic io)) = Inl e' \<longrightarrow>
            fst (analyzeContent P req io userId db) = Inl ContentAnalysisFailed
            \<and> snd (snd (analyzeContent P req io userId db))
                = [RateLimitCheck, CacheLookup, ProviderCall OpenAI, ProviderCall Anthropic])"
  using analyzeContent_on_miss [OF allowed miss] performAnalysis_fallback [OF primary]
    analyzeWithAnthropic_provider [of P req "io_anthropic io"]
  by auto

lemma demo_allowed: "checkRateLimit demo_platform ''u1'' quiet_io empty_db = (first_request, empty_db)"
  by (simp add: checkRateLimit_def DAILY_LIMIT_def quiet_io_def empty_db_def first_request_def Let_def
      incrementUsageForUser_def incrementUsage_def)

lemma getCache_empty: "getCache P key st now st_delete empty_db = (None, empty_db)"
  by (cases st) (simp_all add: getCache_def empty_db_def)

text \<open>
  The primary answers with a failure status; the secondary first with a verdict, then not
  at all.
\<close>

theorem provider_fallback_witness:
  "fst (analyzeContent demo_platform demo_request demo_io ''u1'' empty_db)
     = Inr \<lparr>api_result =
              \<lparr>res_classification = ''human-written'', res_confidenceLevel = ''high'',
               res_confidenceScore = 9 / 10, res_keyIndicators = [''varied rhythm''],
               res_reasoning = ''reads naturally'',
               res_metadata = \<lparr>md_wordCount = 3, md_provider = Anthropic, md_analysisTime = 400,
                               md_cacheCreatedAt = None\<rparr>\<rparr>,
            api_cacheStatus = Miss\<rparr>
   \<and> snd (snd (analyzeContent demo_platform demo_request demo_io ''u1'' empty_db))
       = [RateLimitCheck, CacheLookup, ProviderCall OpenAI, ProviderCall Anthropic, CacheWrite]
   \<and> fst (analyzeContent demo_platform demo_request
             (demo_io\<lparr>io_anthropic := FetchThrows\<rparr>) ''u1'' empty_db)
       = Inl ContentAnalysisFailed
   \<and> snd (snd (analyzeContent demo_platform demo_request
             (demo_io\<lparr>io_anthropic := FetchThrows\<rparr>) ''u1'' empty_db))
       = [RateLimitCheck, CacheLookup, ProviderCall OpenAI, ProviderCall Anthropic]"
proof -
  let ?r = "\<lparr>res_classification = ''human-written'', res_confidenceLevel = ''high'',
               res_confidenceScore = 9 / 10, res_keyIndicators = [''varied rhythm''],
               res_reasoning = ''reads naturally'',
               res_metadata = \<lparr>md_wordCount = 3, md_provider = Anthropic, md_analysisTime = 0,
                               md_cacheCreatedAt = None\<rparr>\<rparr>"
  have wc: "wordCount (rq_text demo_request) = 3"
    by (simp add: wordCount_def trim_def demo_request_def is_space_def utf16_def)
  have mj: "match_json ''Verdict: {H} end'' = Some ''{H}''"
    by (simp add: match_json_def)
  have allowed: "rl_allowed (fst (checkRateLimit demo_platform ''u1'' (io_rate io) empty_db))"
    if "io_rate io = quiet_io" for io :: analysis_io
    using that by (simp add: demo_allowed first_request_def)
  have miss: "fst (getCache demo_platform (generateCacheKey demo_platform demo_request) (io_cache_select io)
                (io_cache_now io) (io_cache_delete io)
                (snd (checkRateLimit demo_platform ''u1'' (io_rate io) empty_db))) = None"
    if "io_rate io = quiet_io" for io :: analysis_io
    using that by (simp add: demo_allowed getCache_empty)
  have primary: "fst (analyzeWithOpenAI demo_platform demo_request (io_openai io))
                   = Inl (ProviderApiError OpenAI)"
    if "io_openai io = HttpReply False BodyNotJson" for io :: analysis_io
    using that by (simp add: analyzeWithOpenAI_def Let_def)
  have second: "fst (analyzeWithAnthropic demo_platform demo_request (io_anthropic demo_io)) = Inr ?r"
    by (simp add: analyzeWithAnthropic_def Let_def demo_io_def parseAnalysisResult_def mj wc
        demo_platform_def demo_parse_analysis_def demo_analysis_def)
  have second_fails:
    "fst (analyzeWithAnthropic demo_platform demo_request
            (io_anthropic (demo_io\<lparr>io_anthropic := FetchThrows\<rparr>))) = Inl FetchException"
    by (simp add: analyzeWithAnthropic_def Let_def)
  have 1: "io_rate demo_io = quiet_io" "io_openai demo_io = HttpReply False BodyNotJson"
    "io_rate (demo_io\<lparr>io_anthropic := FetchThrows\<rparr>) = quiet_io"
    "io_openai (demo_io\<lparr>io_anthropic := FetchThrows\<rparr>) = HttpReply False BodyNotJson"
    by (simp_all add: demo_io_def)
  have t: "io_t_end demo_io - io_t_start demo_io = 400"
    by (simp add: demo_io_def)
  show ?thesis
    using provider_fallback [OF allowed [OF 1(1)] miss [OF 1(1)] primary [OF 1(2)]] second
      provider_fallback [OF allowed [OF 1(3)] miss [OF 1(3)] primary [OF 1(4)]] second_fails
    by (simp add: with_analysisTime_def t)
qed

section \<open>The second identical request\<close>

lemma underscore_not_in_mode_tag: "CHR ''_'' \<notin> set (mode_tag m)"
  by (cases m) simp_all

lemma cache_key_parts:
  assumes "CHR ''_'' \<notin> set (take 16 (sha256_hex_text P (toLowerCase P (rq_url r))))"
    and "CHR ''_'' \<notin> set (take 16 (sha256_hex_text P (toLowerCase P (trim (rq_text r)))))"
  shows "split_on CHR ''_'' (generateCacheKey P r)
           = [take 16 (sha256_hex_text P (toLowerCase P (rq_url r))),
              take 16 (sha256_hex_text P (toLowerCase P (trim (rq_text r)))),
              mode_tag (rq_mode r)]"
proof -
  have "generateCacheKey P r
          = take 16 (sha256_hex_text P (toLowerCase P (rq_url r))) @ [CHR ''_'']
            @ take 16 (sha256_hex_text P (toLowerCase P (trim (rq_text r)))) @ [CHR ''_'']
            @ mode_tag (rq_mode r)"
    by (simp add: generateCacheKey_def)
  then show ?thesis
    using split_on_three [OF assms underscore_not_in_mode_tag [of "rq_mode r"]] by simp
qed

lemma find_append_last: "\<forall>x \<in> set xs. \<not> Q x \<Longrightarrow> Q y \<Longrightarrow> find Q (xs @ [y]) = Some y"
  by (induction xs) auto

lemma find_Some_member: "find Q xs = Some y \<Longrightarrow> y \<in> set xs"
  by (induction xs) (auto split: if_splits)

lemma checkRateLimit_cache_entries:
  "cache_entries (snd (checkRateLimit P userId io db)) = cache_entries db"
  by (auto simp: checkRateLimit_def DAILY_LIMIT_def Let_def incrementUsageForUser_def incrementUsage_def
      split: store_status.splits)

lemma getCache_no_match:
  "\<forall>e \<in> set (cache_entries db). \<not> cache_row_matches key e \<Longrightarrow>
     getCache P key st now st_delete db = (None, db)"
  by (cases st) (simp_all add: getCache_def find_None_iff [THEN iffD2])

text \<open>
  Where the store hands the column \<open>result\<close> back as the object that was serialised, the
  conversion yields the stored result with the entry's creation time.
\<close>

lemma convert_of_stored:
  assumes "result_column P (ce_result e) = Some (cached_result_of a)"
  shows "convertCacheEntryToResult P e
           = Some (a\<lparr>res_metadata := (res_metadata a)\<lparr>md_cacheCreatedAt := Some (ce_created_at e)\<rparr>\<rparr>)"
  using assms
  by (cases a; cases "res_metadata a") (simp add: convertCacheEntryToResult_def cached_result_of_def)

lemma setCache_appends:
  assumes "url_hostname P (rq_url req) \<noteq> None"
    and parts: "split_on CHR ''_'' key = [u, c, m]"
  shows "\<exists>e. cache_entries (setCache P key a req t_modified t_created StoreOk db)
               = cache_entries db @ [e]
            \<and> cache_row_matches key e \<and> ce_created_at e = t_created
            \<and> ce_result e = stringify_result P (cached_result_of a)"
  using assms
  by (auto simp: setCache_def Let_def cache_row_matches_def nth_opt_def)

lemma first_miss_stores:
  assumes fresh: "\<forall>e \<in> set (cache_entries db0). \<not> cache_row_matches (generateCacheKey P req) e"
    and first: "analyzeContent P req io1 userId db0 = (Inr resp1, db1, tr1)"
    and stored: "io_cache_insert io1 = StoreOk" "url_hostname P (rq_url req) \<noteq> None"
    and u: "CHR ''_'' \<notin> set (take 16 (sha256_hex_text P (toLowerCase P (rq_url req))))"
    and c: "CHR ''_'' \<notin> set (take 16 (sha256_hex_text P (toLowerCase P (trim (rq_text req)))))"
  shows "api_cacheStatus resp1 = Miss
     \<and> (\<exists>e. cache_entries db1 = cache_entries db0 @ [e]
            \<and> cache_row_matches (generateCacheKey P req) e
            \<and> ce_created_at e = io_t_created io1
            \<and> ce_result e = stringify_result P (cached_result_of (api_result resp1)))"
proof -
  let ?key = "generateCacheKey P req"
  obtain rl dbr where rl: "checkRateLimit P userId (io_rate io1) db0 = (rl, dbr)"
    by (cases "checkRateLimit P userId (io_rate io1) db0")
  have entries: "cache_entries dbr = cache_entries db0"
    using checkRateLimit_cache_entries [of P userId "io_rate io1" db0] rl by simp
  then have g: "getCache P ?key (io_cache_select io1) (io_cache_now io1) (io_cache_delete io1) dbr
                  = (None, dbr)"
    using fresh by (intro getCache_no_match) simp
  obtain res ev where p: "performAnalysis P req io1 = (res, ev)"
    by (cases "performAnalysis P req io1")
  from first rl g p obtain a where
    a: "res = Inr a" "resp1 = \<lparr>api_result = a, api_cacheStatus = Miss\<rparr>"
      and d: "db1 = setCache P ?key a req (io_t_modified io1) (io_t_created io1) StoreOk dbr"
    using stored(1)
    by (auto simp: analyzeContent_def Let_def split: if_splits sum.splits)
  from setCache_appends [OF stored(2) cache_key_parts [OF u c], of a "io_t_modified io1"
      "io_t_created io1" dbr]
  show ?thesis
    using a d entries by simp
qed

lemma second_call_hits:
  assumes entries: "cache_entries db1 = xs @ [e]"
    and older: "\<forall>x \<in> set xs. \<not> cache_row_matches (generateCacheKey P req2) x"
    and match: "cache_row_matches (generateCacheKey P req2) e"
    and allowed: "rl_allowed (fst (checkRateLimit P userId2 (io_rate io2) db1))"
    and lookup: "io_cache_select io2 = StoreOk"
    and ttl: "io_cache_now io2 - ce_created_at e \<le> 24 * 60 * 60 * 1000"
    and document: "convertCacheEntryToResult P e = Some cached"
  shows "analyzeContent P req2 io2 userId2 db1
           = (Inr \<lparr>api_result = cached, api_cacheStatus = Hit\<rparr>,
              snd (checkRateLimit P userId2 (io_rate io2) db1),
              [RateLimitCheck, CacheLookup])"
proof -
  obtain rl dbr where rl: "checkRateLimit P userId2 (io_rate io2) db1 = (rl, dbr)"
    by (cases "checkRateLimit P userId2 (io_rate io2) db1")
  have "cache_entries dbr = xs @ [e]"
    using checkRateLimit_cache_entries [of P userId2 "io_rate io2" db1] rl entries by simp
  then have "find (cache_row_matches (generateCacheKey P req2)) (cache_entries dbr) = Some e"
    using find_append_last [OF older match] by simp
  then have "getCache P (generateCacheKey P req2) (io_cache_select io2) (io_cache_now io2)
               (io_cache_delete io2) dbr = (Some cached, dbr)"
    using lookup ttl document by (simp add: getCache_def)
  then show ?thesis
    using rl allowed by (simp add: analyzeContent_def Let_def)
qed

lemma generateCacheKey_cong:
  "rq_url r2 = rq_url r \<Longrightarrow> rq_text r2 = rq_text r \<Longrightarrow> rq_mode r2 = rq_mode r \<Longrightarrow>
     generateCacheKey P r2 = generateCacheKey P r"
  by (simp add: generateCacheKey_def)

text \<open>
  C6, as amended. A request that was not cached, answered from a provider and stored, is
  answered from the cache when it comes again with the same url, text and mode within 24
  hours of the entry's creation, provided the rate limiter allows the call, the lookup
  succeeds and the store hands the column \<open>result\<close> back as the object that was
  serialised into it (\<open>document\<close>: the code reads the column without parsing it). Then
  no provider is called, and the result is the first one with \<open>metadata.cacheCreatedAt\<close>
  added and \<open>cacheStatus\<close> \<open>hit\<close> in the place of \<open>miss\<close>.
\<close>

theorem second_request_is_served_from_cache:
  assumes fresh: "\<forall>e \<in> set (cache_entries db0). \<not> cache_row_matches (generateCacheKey P req) e"
    and first: "analyzeContent P req io1 userId db0 = (Inr resp1, db1, tr1)"
    and stored: "io_cache_insert io1 = StoreOk" "url_hostname P (rq_url req) \<noteq> None"
    and document: "result_column P (stringify_result P (cached_result_of (api_result resp1)))
                     = Some (cached_result_of (api_result resp1))"
    and u: "CHR ''_'' \<notin> set (take 16 (sha256_hex_text P (toLowerCase P (rq_url req))))"
    and c: "CHR ''_'' \<notin> set (take 16 (sha256_hex_text P (toLowerCase P (trim (rq_text req)))))"
    and same: "rq_url req2 = rq_url req" "rq_text req2 = rq_text req" "rq_mode req2 = rq_mode req"
    and allowed: "rl_allowed (fst (checkRateLimit P userId2 (io_rate io2) db1))"
    and lookup: "io_cache_select io2 = StoreOk"
    and ttl: "io_cache_now io2 - io_t_created io1 \<le> 24 * 60 * 60 * 1000"
  shows "api_cacheStatus resp1 = Miss
     \<and> fst (analyzeContent P req2 io2 userId2 db1)
         = Inr \<lparr>api_result =
                  (api_result resp1)\<lparr>res_metadata :=
                     (res_metadata (api_result resp1))\<lparr>md_cacheCreatedAt := Some (io_t_created io1)\<rparr>\<rparr>,
                api_cacheStatus = Hit\<rparr>
     \<and> snd (snd (analyzeContent P req2 io2 userId2 db1)) = [RateLimitCheck, CacheLookup]"
proof -
  have k: "generateCacheKey P req2 = generateCacheKey P req"
    using same by (rule generateCacheKey_cong)
  from first_miss_stores [OF fresh first stored u c] obtain e where
    m: "api_cacheStatus resp1 = Miss"
    and e: "cache_entries db1 = cache_entries db0 @ [e]"
      "cache_row_matches (generateCacheKey P req) e"
      "ce_created_at e = io_t_created io1"
      "ce_result e = stringify_result P (cached_result_of (api_result resp1))"
    by blast
  have conv: "convertCacheEntryToResult P e
         = Some ((api_result resp1)\<lparr>res_metadata :=
              (res_metadata (api_result resp1))\<lparr>md_cacheCreatedAt := Some (io_t_created io1)\<rparr>\<rparr>)"
    using convert_of_stored [of P e "api_result resp1"] document e(3,4) by simp
  have "analyzeContent P req2 io2 userId2 db1
           = (Inr \<lparr>api_result =
                     (api_result resp1)\<lparr>res_metadata :=
                        (res_metadata (api_result resp1))\<lparr>md_cacheCreatedAt := Some (io_t_created io1)\<rparr>\<rparr>,
                   api_cacheStatus = Hit\<rparr>,
              snd (checkRateLimit P userId2 (io_rate io2) db1),
              [RateLimitCheck, CacheLookup])"
    using fresh e ttl
    by (intro second_call_hits [OF e(1) _ _ allowed lookup _ conv]) (simp_all add: k)
  then show ?thesis
    using m by simp
qed

lemma hex_digit_not_underscore: "hex_digit n \<noteq> CHR ''_''"
proof -
  have "hex_digit n \<in> set ''0123456789abcdef''"
    unfolding hex_digit_def by (rule nth_mem) simp
  then show ?thesis by auto
qed

lemma demo_hash_no_underscore: "CHR ''_'' \<notin> set (take 16 (demo_sha256_hex_text s))"
proof -
  have "CHR ''_'' \<notin> set (demo_sha256_hex_text s)"
    using hex_digit_not_underscore [symmetric]
    by (simp add: demo_sha256_hex_text_def hex4_def)
  then show ?thesis
    by (auto dest: in_set_takeD)
qed

lemma demo_hostname_request: "demo_hostname (rq_url demo_request) = Some (utf16 ''ex.org'')"
  by (simp add: demo_hostname_def demo_request_def utf16_def)

lemma demo_wordCount: "wordCount (rq_text demo_request) = 3"
  by (simp add: wordCount_def trim_def demo_request_def is_space_def utf16_def)

lemma demo_document:
  "demo_result_column (demo_stringify_result (cached_result_of demo_result))
     = Some (cached_result_of demo_result)"
  by (simp add: demo_stringify_result_def demo_result_column_def)

text \<open>
  The first call on an empty store, on any platform that reads the provider's verdict as
  the concrete one does.
\<close>

lemma first_call:
  assumes "parse_analysis P = demo_parse_analysis"
  shows "fst (analyzeContent P demo_request first_io ''u1'' empty_db)
     = Inr \<lparr>api_result = demo_result, api_cacheStatus = Miss\<rparr>"
proof -
  have mj: "match_json ''{H}'' = Some ''{H}''"
    by (simp add: match_json_def)
  have "analyzeWithOpenAI P demo_request (io_openai first_io)
          = (Inr (demo_result\<lparr>res_metadata := (res_metadata demo_result)\<lparr>md_analysisTime := 0\<rparr>\<rparr>),
             [ProviderCall OpenAI])"
    by (simp add: analyzeWithOpenAI_def Let_def first_io_def parseAnalysisResult_def mj
        demo_wordCount assms demo_parse_analysis_def demo_analysis_def demo_result_def)
  then have "fst (performAnalysis P demo_request first_io) = Inr demo_result"
    by (simp add: performAnalysis_def with_analysisTime_def first_io_def demo_io_def
        demo_result_def)
  moreover have "checkRateLimit P ''u1'' (io_rate first_io) empty_db = (first_request, empty_db)"
    by (rule checkRateLimit_no_row) (simp_all add: first_io_def demo_io_def quiet_io_def empty_db_def)
  ultimately show ?thesis
    using analyzeContent_on_miss(1) [of P "''u1''" first_io empty_db demo_request]
    by (simp add: getCache_empty first_request_def)
qed

lemma demo_first_call:
  "fst (analyzeContent demo_platform demo_request first_io ''u1'' empty_db)
     = Inr \<lparr>api_result = demo_result, api_cacheStatus = Miss\<rparr>"
  by (rule first_call) (simp add: demo_platform_def)

lemma analyzeContent_usage:
  "usage_analytics (fst (snd (analyzeContent P req io userId db)))
     = usage_analytics (snd (checkRateLimit P userId (io_rate io) db))"
  by (auto simp: analyzeContent_def Let_def getCache_def deleteCache_def setCache_def
      split: prod.splits option.splits sum.splits store_status.splits if_splits)

lemma second_allowed:
  assumes "io_rate io2 = quiet_io"
  shows "rl_allowed (fst (checkRateLimit P ''u1'' (io_rate io2)
           (fst (snd (analyzeContent P demo_request first_io ''u1'' empty_db)))))"
proof -
  have "checkRateLimit P ''u1'' (io_rate first_io) empty_db = (first_request, empty_db)"
    by (rule checkRateLimit_no_row) (simp_all add: first_io_def demo_io_def quiet_io_def empty_db_def)
  then have "usage_analytics (fst (snd (analyzeContent P demo_request first_io ''u1'' empty_db)))
          = []"
    by (simp add: analyzeContent_usage empty_db_def)
  then show ?thesis
    using assms
    by (subst checkRateLimit_no_row) (simp_all add: quiet_io_def first_request_def)
qed

text \<open>
  The request of \<open>demo_request\<close> on an empty store, and again one minute later without
  its freshness token and with both providers unreachable.
\<close>

theorem second_request_is_served_from_cache_witness:
  "fst (analyzeContent demo_platform demo_request first_io ''u1'' empty_db)
     = Inr \<lparr>api_result = demo_result, api_cacheStatus = Miss\<rparr>
   \<and> fst (analyzeContent demo_platform (demo_request\<lparr>rq_lastModified := None\<rparr>) second_io ''u1''
            (fst (snd (analyzeContent demo_platform demo_request first_io ''u1'' empty_db))))
       = Inr \<lparr>api_result =
                demo_result\<lparr>res_metadata := (res_metadata demo_result)\<lparr>md_cacheCreatedAt := Some 1500\<rparr>\<rparr>,
              api_cacheStatus = Hit\<rparr>
   \<and> snd (snd (analyzeContent demo_platform (demo_request\<lparr>rq_lastModified := None\<rparr>) second_io ''u1''
            (fst (snd (analyzeContent demo_platform demo_request first_io ''u1'' empty_db)))))
       = [RateLimitCheck, CacheLookup]"
proof -
  let ?first = "analyzeContent demo_platform demo_request first_io ''u1'' empty_db"
  let ?resp1 = "\<lparr>api_result = demo_result, api_cacheStatus = Miss\<rparr>"
  have fresh: "\<forall>e \<in> set (cache_entries empty_db).
                 \<not> cache_row_matches (generateCacheKey demo_platform demo_request) e"
    by (simp add: empty_db_def)
  have first: "?first = (Inr ?resp1, fst (snd ?first), snd (snd ?first))"
    using demo_first_call by (cases ?first) simp
  have io1: "io_cache_insert first_io = StoreOk" "io_t_created first_io = 1500"
    by (simp_all add: first_io_def demo_io_def)
  have host: "url_hostname demo_platform (rq_url demo_request) \<noteq> None"
    by (simp add: demo_platform_def demo_hostname_request)
  have document: "result_column demo_platform
                    (stringify_result demo_platform (cached_result_of (api_result ?resp1)))
                  = Some (cached_result_of (api_result ?resp1))"
    by (simp add: demo_platform_def demo_document)
  have u: "CHR ''_'' \<notin> set (take 16 (sha256_hex_text demo_platform s))" for s
    by (simp add: demo_platform_def demo_hash_no_underscore)
  have io2: "io_rate second_io = quiet_io" "io_cache_select second_io = StoreOk"
    "io_cache_now second_io - io_t_created first_io \<le> 24 * 60 * 60 * 1000"
    by (simp_all add: second_io_def first_io_def demo_io_def)
  show ?thesis
    using second_request_is_served_from_cache [OF fresh first io1(1) host document u u _ _ _
        second_allowed [OF io2(1)] io2(2,3),
        of "demo_request\<lparr>rq_lastModified := None\<rparr>"]
      demo_first_call io1(2)
    by simp
qed

lemma demo_second_call:
  "analyzeContent demo_platform demo_request second_io ''u1''
       (fst (snd (analyzeContent demo_platform demo_request first_io ''u1'' empty_db)))
     = (Inr \<lparr>api_result =
               demo_result\<lparr>res_metadata := (res_metadata demo_result)\<lparr>md_cacheCreatedAt := Some 1500\<rparr>\<rparr>,
             api_cacheStatus = Hit\<rparr>,
        snd (checkRateLimit demo_platform ''u1'' (io_rate second_io)
              (fst (snd (analyzeContent demo_platform demo_request first_io ''u1'' empty_db)))),
        [RateLimitCheck, CacheLookup])"
proof -
  let ?first = "analyzeContent demo_platform demo_request first_io ''u1'' empty_db"
  let ?resp1 = "\<lparr>api_result = demo_result, api_cacheStatus = Miss\<rparr>"
  have fresh: "\<forall>e \<in> set (cache_entries empty_db).
                 \<not> cache_row_matches (generateCacheKey demo_platform demo_request) e"
    by (simp add: empty_db_def)
  have first: "?first = (Inr ?resp1, fst (snd ?first), snd (snd ?first))"
    using demo_first_call by (cases ?first) simp
  have io1: "io_cache_insert first_io = StoreOk" "io_t_created first_io = 1500"
    by (simp_all add: first_io_def demo_io_def)
  have host: "url_hostname demo_platform (rq_url demo_request) \<noteq> None"
    by (simp add: demo_platform_def demo_hostname_request)
  have u: "CHR ''_'' \<notin> set (take 16 (sha256_hex_text demo_platform s))" for s
    by (simp add: demo_platform_def demo_hash_no_underscore)
  have io2: "io_rate second_io = quiet_io" "io_cache_select second_io = StoreOk"
    "io_cache_now second_io = 60000"
    by (simp_all add: second_io_def first_io_def demo_io_def)
  from first_miss_stores [OF fresh first io1(1) host u u]
  obtain e where e: "cache_entries (fst (snd ?first)) = cache_entries empty_db @ [e]"
      "cache_row_matches (generateCacheKey demo_platform demo_request) e"
      "ce_created_at e = 1500"
      "ce_result e = stringify_result demo_platform (cached_result_of demo_result)"
    using io1(2) by auto
  have "result_column demo_platform (ce_result e) = Some (cached_result_of demo_result)"
    using e(4) by (simp add: demo_platform_def demo_document)
  then have conv: "convertCacheEntryToResult demo_platform e
         = Some (demo_result\<lparr>res_metadata := (res_metadata demo_result)\<lparr>md_cacheCreatedAt := Some 1500\<rparr>\<rparr>)"
    using convert_of_stored [of demo_platform e demo_result] e(3) by simp
  have ttl: "io_cache_now second_io - ce_created_at e \<le> 24 * 60 * 60 * 1000"
    using e(3) io2(3) by simp
  show ?thesis
    by (rule second_call_hits [OF e(1) fresh e(2) second_allowed [OF io2(1)] io2(2) ttl conv])
qed

text \<open>
  Against C6 as stated: the second response, served from the cache within the TTL
  without a provider call, is not the first response.
\<close>

theorem second_response_differs_from_first:
  "fst (analyzeContent demo_platform demo_request first_io ''u1'' empty_db)
     = Inr \<lparr>api_result = demo_result, api_cacheStatus = Miss\<rparr>
   \<and> fst (analyzeContent demo_platform demo_request second_io ''u1''
            (fst (snd (analyzeContent demo_platform demo_request first_io ''u1'' empty_db))))
       = Inr \<lparr>api_result =
                demo_result\<lparr>res_metadata := (res_metadata demo_result)\<lparr>md_cacheCreatedAt := Some 1500\<rparr>\<rparr>,
              api_cacheStatus = Hit\<rparr>
   \<and> snd (snd (analyzeContent demo_platform demo_request second_io ''u1''
            (fst (snd (analyzeContent demo_platform demo_request first_io ''u1'' empty_db)))))
       = [RateLimitCheck, CacheLookup]
   \<and> fst (analyzeContent demo_platform demo_request second_io ''u1''
            (fst (snd (analyzeContent demo_platform demo_request first_io ''u1'' empty_db))))
       \<noteq> fst (analyzeContent demo_platform demo_request first_io ''u1'' empty_db)"
  by (simp add: demo_first_call demo_second_call)

text \<open>
  Where the store hands the column back as the text that was bound, no entry is ever
  read: the conversion throws, \<open>getCache\<close> answers \<open>null\<close>, and the second identical
  request goes to the providers again.
\<close>

lemma getCache_text_column:
  assumes "\<forall>e \<in> set (cache_entries db). result_column P (ce_result e) = None"
  shows "fst (getCache P key st now st_delete db) = None"
proof (cases "find (cache_row_matches key) (cache_entries db)")
  case None
  then show ?thesis
    by (cases st) (simp_all add: getCache_def)
next
  case (Some e)
  then have "e \<in> set (cache_entries db)"
    by (rule find_Some_member)
  then have "convertCacheEntryToResult P e = None"
    using assms by (simp add: convertCacheEntryToResult_def)
  then show ?thesis
    using Some by (cases st) (simp_all add: getCache_def)
qed

lemma second_call_on_text_store:
  "fst (analyzeContent text_store_platform demo_request first_io ''u1'' empty_db)
     = Inr \<lparr>api_result = demo_result, api_cacheStatus = Miss\<rparr>
   \<and> cache_entries (fst (snd (analyzeContent text_store_platform demo_request first_io ''u1'' empty_db)))
       \<noteq> []
   \<and> fst (analyzeContent text_store_platform demo_request second_io ''u1''
            (fst (snd (analyzeContent text_store_platform demo_request first_io ''u1'' empty_db))))
       = Inl ContentAnalysisFailed
   \<and> snd (snd (analyzeContent text_store_platform demo_request second_io ''u1''
            (fst (snd (analyzeContent text_store_platform demo_request first_io ''u1'' empty_db)))))
       = [RateLimitCheck, CacheLookup, ProviderCall OpenAI, ProviderCall Anthropic]"
proof -
  let ?P = text_store_platform
  let ?first = "analyzeContent ?P demo_request first_io ''u1'' empty_db"
  let ?resp1 = "\<lparr>api_result = demo_result, api_cacheStatus = Miss\<rparr>"
  have 1: "fst ?first = Inr ?resp1"
    by (rule first_call) (simp add: text_store_platform_def demo_platform_def)
  have fresh: "\<forall>e \<in> set (cache_entries empty_db).
                 \<not> cache_row_matches (generateCacheKey ?P demo_request) e"
    by (simp add: empty_db_def)
  have first: "?first = (Inr ?resp1, fst (snd ?first), snd (snd ?first))"
    using 1 by (cases ?first) simp
  have io1: "io_cache_insert first_io = StoreOk"
    by (simp add: first_io_def demo_io_def)
  have host: "url_hostname ?P (rq_url demo_request) \<noteq> None"
    by (simp add: text_store_platform_def demo_platform_def demo_hostname_request)
  have u: "CHR ''_'' \<notin> set (take 16 (sha256_hex_text ?P s))" for s
    by (simp add: text_store_platform_def demo_platform_def demo_hash_no_underscore)
  from first_miss_stores [OF fresh first io1 host u u]
  have 2: "cache_entries (fst (snd ?first)) \<noteq> []"
    by auto
  have io2: "io_rate second_io = quiet_io"
    by (simp add: second_io_def first_io_def demo_io_def)
  have unread: "\<forall>e \<in> set (cache_entries db). result_column ?P (ce_result e) = None" for db
    by (simp add: text_store_platform_def)
  have miss: "fst (getCache ?P (generateCacheKey ?P demo_request) (io_cache_select second_io)
                (io_cache_now second_io) (io_cache_delete second_io)
                (snd (checkRateLimit ?P ''u1'' (io_rate second_io) (fst (snd ?first))))) = None"
    by (rule getCache_text_column [OF unread])
  have p: "performAnalysis ?P demo_request second_io
             = (Inl ContentAnalysisFailed, [ProviderCall OpenAI, ProviderCall Anthropic])"
    by (simp add: performAnalysis_def analyzeWithOpenAI_def analyzeWithAnthropic_def Let_def
        second_io_def)
  show ?thesis
    using 1 2 analyzeContent_on_miss [OF second_allowed [OF io2] miss] p
    by simp
qed

section \<open>Rate limit before cache\<close>

lemma performAnalysis_trace:
  "snd (performAnalysis P req io) = [ProviderCall OpenAI]
   \<or> snd (performAnalysis P req io) = [ProviderCall OpenAI, ProviderCall Anthropic]"
proof -
  obtain r1 ev1 where a: "analyzeWithOpenAI P req (io_openai io) = (r1, ev1)"
    by (cases "analyzeWithOpenAI P req (io_openai io)")
  obtain r2 ev2 where b: "analyzeWithAnthropic P req (io_anthropic io) = (r2, ev2)"
    by (cases "analyzeWithAnthropic P req (io_anthropic io)")
  have "ev1 = [ProviderCall OpenAI]" "ev2 = [ProviderCall Anthropic]"
    using a b analyzeWithOpenAI_events [of P req "io_openai io"]
      analyzeWithAnthropic_events [of P req "io_anthropic io"] by simp_all
  then show ?thesis
    using a b by (cases r1; cases r2) (simp_all add: performAnalysis_def)
qed

lemma checkRateLimit_denied_db:
  "\<not> rl_allowed (fst (checkRateLimit P userId io db)) \<Longrightarrow> snd (checkRateLimit P userId io db) = db"
  by (auto simp: checkRateLimit_def DAILY_LIMIT_def Let_def allowed_only_def split: store_status.splits if_splits)

text \<open>
  The parts of C8 that hold. A refused call of a user (the controller passes the id of
  the authenticated user, which is not empty) carries the retry delay.
\<close>

lemma checkRateLimit_denied_retryAfter:
  "\<not> rl_allowed (fst (checkRateLimit P userId io db)) \<Longrightarrow> userId \<noteq> [] \<Longrightarrow>
     rl_retryAfter (fst (checkRateLimit P userId io db))
       = Some (ceil_div_1000 (next_local_midnight P (rl_t_tomorrow io) - rl_t_now io))"
  by (auto simp: checkRateLimit_def DAILY_LIMIT_def Let_def allowed_only_def split: store_status.splits if_splits)

text \<open>
  A refused call fails with "Rate limit exceeded" and does nothing else: no cache lookup,
  no provider call, no cache write, the store as it was.
\<close>

lemma analyzeContent_denied:
  assumes "\<not> rl_allowed (fst (checkRateLimit P userId (io_rate io) db))"
  shows "analyzeContent P req io userId db
           = (Inl (RateLimitExceeded (rl_retryAfter (fst (checkRateLimit P userId (io_rate io) db)))),
              db, [RateLimitCheck])"
  using assms checkRateLimit_denied_db [OF assms]
  by (auto simp: analyzeContent_def split: prod.splits)

text \<open>Every call consults the rate limiter first and looks the cache up only after it.\<close>

lemma analyzeContent_trace_shape:
  "snd (snd (analyzeContent P req io userId db)) = [RateLimitCheck]
   \<or> (\<exists>rest. snd (snd (analyzeContent P req io userId db)) = RateLimitCheck # CacheLookup # rest
         \<and> RateLimitCheck \<notin> set rest \<and> CacheLookup \<notin> set rest)"
proof -
  obtain res ev where p: "performAnalysis P req io = (res, ev)"
    by (cases "performAnalysis P req io")
  have "ev = [ProviderCall OpenAI] \<or> ev = [ProviderCall OpenAI, ProviderCall Anthropic]"
    using performAnalysis_trace [of P req io] p by simp
  then show ?thesis
    using p
    by (auto simp: analyzeContent_def Let_def split: prod.splits option.splits sum.splits)
qed

lemma getCache_hit_db:
  "getCache P key st now st_delete db = (Some r, db') \<Longrightarrow> db' = db"
  by (auto simp: getCache_def split: store_status.splits option.splits if_splits)

lemma analyzeContent_hit_db:
  assumes "analyzeContent P req io userId db = (Inr resp, db', tr)" "api_cacheStatus resp = Hit"
  shows "db' = snd (checkRateLimit P userId (io_rate io) db)
         \<and> rl_allowed (fst (checkRateLimit P userId (io_rate io) db))
         \<and> tr = [RateLimitCheck, CacheLookup]"
  using assms
  by (auto simp: analyzeContent_def Let_def
      split: prod.splits option.splits sum.splits if_splits dest: getCache_hit_db)

text \<open>A cache hit of a user whose counter row exists has incremented the row.\<close>

lemma cache_hit_increments_existing_row:
  assumes "userId \<noteq> []" "rl_select (io_rate io) = StoreOk" "rl_update (io_rate io) = StoreOk"
    and row: "find (\<lambda>r. ua_user_id r = userId \<and> ua_created_at r = utc_day (rl_t_today (io_rate io)))
                (usage_analytics db) = Some row"
    and hit: "analyzeContent P req io userId db = (Inr resp, db', tr)" "api_cacheStatus resp = Hit"
  shows "usage_analytics db'
            = map (\<lambda>r. if ua_user_id r = userId
                           \<and> ua_created_at r = utc_day (rl_t_today (io_rate io))
                        then r\<lparr>ua_daily_count := ua_daily_count r + 1\<rparr> else r)
                  (usage_analytics db)"
proof -
  have d: "db' = snd (checkRateLimit P userId (io_rate io) db)"
    and a: "rl_allowed (fst (checkRateLimit P userId (io_rate io) db))"
    using analyzeContent_hit_db [OF hit] by simp_all
  have "ua_daily_count row < DAILY_LIMIT"
  proof (rule ccontr)
    assume "\<not> ua_daily_count row < DAILY_LIMIT"
    then have "DAILY_LIMIT \<le> ua_daily_count row" by simp
    from checkRateLimit_existing_row(3) [OF assms(1,2) row this, of P] a
    show False by simp
  qed
  from checkRateLimit_existing_row(2) [OF assms(1,2) row this assms(3), of P] d
  show ?thesis
    by simp
qed

lemma demo_entry_matches:
  "cache_row_matches (generateCacheKey demo_platform demo_request) demo_entry"
proof -
  have u: "CHR ''_'' \<notin> set (take 16 (sha256_hex_text demo_platform s))" for s
    by (simp add: demo_platform_def demo_hash_no_underscore)
  have "split_on CHR ''_'' (generateCacheKey demo_platform demo_request)
          = [take 16 (sha256_hex_text demo_platform (toLowerCase demo_platform (rq_url demo_request))),
             take 16 (sha256_hex_text demo_platform
                        (toLowerCase demo_platform (trim (rq_text demo_request)))),
             mode_tag (rq_mode demo_request)]"
    by (rule cache_key_parts [OF u u])
  then show ?thesis
    by (simp add: cache_row_matches_def nth_opt_def demo_entry_def)
       (simp add: demo_platform_def demo_request_def)
qed

lemma demo_entry_converts:
  "convertCacheEntryToResult demo_platform demo_entry
     = Some (demo_result\<lparr>res_metadata := (res_metadata demo_result)\<lparr>md_cacheCreatedAt := Some 1500\<rparr>\<rparr>)"
proof -
  have "result_column demo_platform (ce_result demo_entry) = Some (cached_result_of demo_result)"
    by (simp add: demo_platform_def demo_result_column_def demo_entry_def)
  from convert_of_stored [OF this] show ?thesis
    by (simp add: demo_entry_def)
qed

lemma demo_hit_call:
  assumes entries: "cache_entries db = [demo_entry]"
    and allowed: "rl_allowed (fst (checkRateLimit demo_platform ''u1'' (io_rate io) db))"
    and lookup: "io_cache_select io = StoreOk"
    and ttl: "io_cache_now io - 1500 \<le> 24 * 60 * 60 * 1000"
  shows "analyzeContent demo_platform demo_request io ''u1'' db
     = (Inr \<lparr>api_result =
               demo_result\<lparr>res_metadata := (res_metadata demo_result)\<lparr>md_cacheCreatedAt := Some 1500\<rparr>\<rparr>,
             api_cacheStatus = Hit\<rparr>,
        snd (checkRateLimit demo_platform ''u1'' (io_rate io) db),
        [RateLimitCheck, CacheLookup])"
proof -
  have e: "cache_entries db = [] @ [demo_entry]"
    using entries by simp
  have t: "io_cache_now io - ce_created_at demo_entry \<le> 24 * 60 * 60 * 1000"
    using ttl by (simp add: demo_entry_def)
  show ?thesis
    by (rule second_call_hits [OF e _ demo_entry_matches allowed lookup t demo_entry_converts])
       simp
qed

text \<open>
  The user at the limit is refused with a delay of 86400 seconds and nothing else
  happens; the user with three requests gets the cached result and has four.
\<close>

lemma demo_refused_at_limit:
  "analyzeContent demo_platform demo_request second_io ''u1'' (hit_db 50)
     = (Inl (RateLimitExceeded (Some 86400)), hit_db 50, [RateLimitCheck])"
proof -
  have find: "find (\<lambda>r. ua_user_id r = ''u1'' \<and> ua_created_at r = utc_day (rl_t_today quiet_io))
                 (usage_analytics (hit_db 50)) = Some (usage_row 50)"
    by (simp add: hit_db_def usage_row_def quiet_io_def utc_day_def)
  have io: "io_rate second_io = quiet_io"
    by (simp add: second_io_def first_io_def demo_io_def)
  have "checkRateLimit demo_platform ''u1'' quiet_io (hit_db 50)
          = (\<lparr>rl_allowed = False, rl_retryAfter = Some 86400,
              rl_message = Some ''Daily limit exceeded'', rl_currentCount = Some 50\<rparr>, hit_db 50)"
    using checkRateLimit_existing_row(3) [OF _ _ find, where P = demo_platform]
    by (simp add: usage_row_def DAILY_LIMIT_def)
       (simp add: quiet_io_def ceil_div_1000_def demo_platform_def)
  then show ?thesis
    using analyzeContent_denied [of demo_platform "''u1''" second_io "hit_db 50" demo_request] io
    by simp
qed

lemma demo_hit_with_row:
  "usage_analytics (fst (snd (analyzeContent demo_platform demo_request second_io ''u1'' (hit_db 3))))
     = [usage_row 4]
   \<and> snd (snd (analyzeContent demo_platform demo_request second_io ''u1'' (hit_db 3)))
       = [RateLimitCheck, CacheLookup]"
proof -
  have find: "find (\<lambda>r. ua_user_id r = ''u1'' \<and> ua_created_at r = utc_day (rl_t_today quiet_io))
                 (usage_analytics (hit_db 3)) = Some (usage_row 3)"
    by (simp add: hit_db_def usage_row_def quiet_io_def utc_day_def)
  have io: "io_rate second_io = quiet_io" "io_cache_select second_io = StoreOk"
    "io_cache_now second_io = 60000"
    by (simp_all add: second_io_def first_io_def demo_io_def)
  have q: "rl_select quiet_io = StoreOk" "rl_update quiet_io = StoreOk"
    by (simp_all add: quiet_io_def)
  have allowed: "rl_allowed (fst (checkRateLimit demo_platform ''u1'' (io_rate second_io) (hit_db 3)))"
    using checkRateLimit_existing_row(1) [OF _ q(1) find, where P = demo_platform] io(1)
    by (simp add: usage_row_def DAILY_LIMIT_def)
  have usage: "usage_analytics (snd (checkRateLimit demo_platform ''u1'' (io_rate second_io) (hit_db 3)))
                 = [usage_row 4]"
    using checkRateLimit_existing_row(2) [OF _ q(1) find _ q(2), where P = demo_platform] io(1)
    by (simp add: usage_row_def DAILY_LIMIT_def hit_db_def quiet_io_def utc_day_def)
  have "analyzeContent demo_platform demo_request second_io ''u1'' (hit_db 3)
     = (Inr \<lparr>api_result =
               demo_result\<lparr>res_metadata := (res_metadata demo_result)\<lparr>md_cacheCreatedAt := Some 1500\<rparr>\<rparr>,
             api_cacheStatus = Hit\<rparr>,
        snd (checkRateLimit demo_platform ''u1'' (io_rate second_io) (hit_db 3)),
        [RateLimitCheck, CacheLookup])"
    by (rule demo_hit_call [OF _ allowed io(2)]) (simp_all add: hit_db_def io(3))
  then show ?thesis
    using usage by simp
qed

text \<open>
  C8. The claim holds but for one clause: a cache hit does not always consume a unit of
  the daily quota. \<open>incrementUsage\<close> runs its \<open>UPDATE\<close> and tries the \<open>INSERT\<close> only
  when the \<open>UPDATE\<close> reports an error; for a user without a counter row the \<open>UPDATE\<close>
  matches nothing and succeeds, so no row is written. User u1 has no counter row, the
  request is cached and every store statement succeeds: the call passes the rate limiter,
  is answered from the cache without a provider call, and leaves the store as it was,
  with no counter row and nothing counted.
\<close>

theorem cache_hit_consumes_no_quota:
  "usage_analytics cached_db = []
   \<and> analyzeContent demo_platform demo_request second_io ''u1'' cached_db
       = (Inr \<lparr>api_result =
                 demo_result\<lparr>res_metadata := (res_metadata demo_result)\<lparr>md_cacheCreatedAt := Some 1500\<rparr>\<rparr>,
               api_cacheStatus = Hit\<rparr>,
          cached_db,
          [RateLimitCheck, CacheLookup])
   \<and> usage_analytics
       (fst (snd (analyzeContent demo_platform demo_request second_io ''u1'' cached_db))) = []"
proof -
  have io: "io_rate second_io = quiet_io" "io_cache_select second_io = StoreOk"
    "io_cache_now second_io = 60000"
    by (simp_all add: second_io_def first_io_def demo_io_def)
  have empty: "usage_analytics cached_db = []"
    by (simp add: cached_db_def empty_db_def)
  have rl: "checkRateLimit demo_platform ''u1'' (io_rate second_io) cached_db
              = (first_request, cached_db)"
    unfolding io(1)
    by (rule checkRateLimit_no_row) (simp_all add: quiet_io_def empty)
  have "analyzeContent demo_platform demo_request second_io ''u1'' cached_db
     = (Inr \<lparr>api_result =
               demo_result\<lparr>res_metadata := (res_metadata demo_result)\<lparr>md_cacheCreatedAt := Some 1500\<rparr>\<rparr>,
             api_cacheStatus = Hit\<rparr>,
        snd (checkRateLimit demo_platform ''u1'' (io_rate second_io) cached_db),
        [RateLimitCheck, CacheLookup])"
    by (rule demo_hit_call [OF _ _ io(2)])
       (simp_all add: rl first_request_def io(3), simp add: cached_db_def empty_db_def)
  then show ?thesis
    using rl empty by simp
qed

end
